theory Spec2Isabelle
  imports Complex_Main
begin

section \<open>Numbers and geometry\<close>

text \<open>
  The measures of \<^verbatim>\<open>habitat/tasks/nav/object_nav_task.py\<close>. Positions are arrays
  of three coordinates, read by index, axis 1 being the vertical one. Positions and
  boxes are given by the real values of their coordinates, and the containment tests
  compute with them exactly. The rewards, the distances and the coverage ratios are
  floats with their rounding, infinities and not-a-number (section
  \<open>Floating-point numbers\<close>).
\<close>

datatype vec3 = Vec3 real real real

fun coord :: "vec3 \<Rightarrow> nat \<Rightarrow> real" where
  "coord (Vec3 a b c) i = (if i = 0 then a else if i = 1 then b else c)"

text \<open>
  The simulator's bounding box, read through \<^verbatim>\<open>center\<close>, \<^verbatim>\<open>sizes\<close>,
  \<^verbatim>\<open>min()\<close> and \<^verbatim>\<open>max()\<close>. The type belongs to the simulator; a box is kept as
  its centre and its full extents, and the two corners are the centre minus and plus
  half of the extents.
\<close>

record aabb =
  center :: vec3
  sizes :: vec3

definition aabb_min :: "aabb \<Rightarrow> vec3" where
  "aabb_min b =
     Vec3 (coord (center b) 0 - coord (sizes b) 0 / 2)
          (coord (center b) 1 - coord (sizes b) 1 / 2)
          (coord (center b) 2 - coord (sizes b) 2 / 2)"

definition aabb_max :: "aabb \<Rightarrow> vec3" where
  "aabb_max b =
     Vec3 (coord (center b) 0 + coord (sizes b) 0 / 2)
          (coord (center b) 1 + coord (sizes b) 1 / 2)
          (coord (center b) 2 + coord (sizes b) 2 / 2)"

subsection \<open>The two containment tests\<close>


text \<open>
  \<^verbatim>\<open>RoomVisitationMap.aabb_contains\<close> and \<^verbatim>\<open>ExplorationMetrics.aabb_contains\<close>
  (the same text in both classes): compare with the two corners, axes 0, 2, 1 in
  that order.
\<close>

definition aabb_contains :: "vec3 \<Rightarrow> aabb \<Rightarrow> bool" where
  "aabb_contains position b =
     (let aabb_min' = aabb_min b; aabb_max' = aabb_max b
      in if coord aabb_min' 0 \<le> coord position 0 \<and> coord aabb_max' 0 \<ge> coord position 0 \<and>
            coord aabb_min' 2 \<le> coord position 2 \<and> coord aabb_max' 2 \<ge> coord position 2 \<and>
            coord aabb_min' 1 \<le> coord position 1 \<and> coord aabb_max' 1 \<ge> coord position 1
         then True else False)"



definition unit_box :: aabb where
  "unit_box = \<lparr>center = Vec3 0 0 0, sizes = Vec3 2 2 2\<rparr>"

section \<open>Dictionaries with defaults\<close>

text \<open>
  \<^verbatim>\<open>defaultdict(list)\<close> and \<^verbatim>\<open>defaultdict(int)\<close> keep their keys in insertion
  order, and the measures iterate over them: they are association lists.
  \<^verbatim>\<open>d[k].append(v)\<close> and \<^verbatim>\<open>d[k] += 1\<close> create a missing key at the end.
\<close>

fun dd_append :: "('k \<times> 'v list) list \<Rightarrow> 'k \<Rightarrow> 'v \<Rightarrow> ('k \<times> 'v list) list" where
  "dd_append [] k v = [(k, [v])]"
| "dd_append ((k', vs) # d) k v =
     (if k' = k then (k', vs @ [v]) # d else (k', vs) # dd_append d k v)"

fun dd_incr :: "('k \<times> int) list \<Rightarrow> 'k \<Rightarrow> ('k \<times> int) list" where
  "dd_incr [] k = [(k, 0 + 1)]"
| "dd_incr ((k', n) # d) k =
     (if k' = k then (k', n + 1) # d else (k', n) # dd_incr d k)"

fun dd_get :: "('k \<times> int) list \<Rightarrow> 'k \<Rightarrow> int" where
  "dd_get [] k = 0"
| "dd_get ((k', n) # d) k = (if k' = k then n else dd_get d k)"

definition dd_values_sum :: "('k \<times> int) list \<Rightarrow> int" where
  "dd_values_sum d = sum_list (map snd d)"

section \<open>The scene and the episode\<close>

text \<open>
  What the measures read from the simulator and the episode: a region gives its
  category name and its box, a level its regions, a goal the positions of its view
  points (\<^verbatim>\<open>view_points\<close> is optional in \<^verbatim>\<open>ObjectGoal\<close>).
\<close>

record region =
  category_name :: string
  region_aabb :: aabb

record object_goal =
  view_points :: "vec3 list option"

datatype error = TypeError | IndexError

section \<open>RoomVisitationMap\<close>

datatype rvm_metric =
    Visitation_Map "(string \<times> int) list"
  | Step_Metric int "(string \<times> int) list"

record rvm_state =
  goal_rooms :: "(string \<times> aabb list) list"
  room_aabbs :: "(string \<times> aabb list) list"
  goal_room_visitation_map :: "(string \<times> int) list"
  room_visitation_map :: "(string \<times> int) list"
  rvm_metric :: "rvm_metric option"

definition rvm_init :: rvm_state where
  "rvm_init = \<lparr>goal_rooms = [], room_aabbs = [], goal_room_visitation_map = [],
               room_visitation_map = [], rvm_metric = None\<rparr>"

text \<open>
  The inner loop of \<^verbatim>\<open>update_metric\<close>: every box of the region that contains the
  agent adds one to the region's count. The outer loop runs over the regions.
\<close>

fun visit_aabbs :: "vec3 \<Rightarrow> string \<Rightarrow> aabb list \<Rightarrow> (string \<times> int) list \<Rightarrow> (string \<times> int) list" where
  "visit_aabbs agent_position region [] m = m"
| "visit_aabbs agent_position region (b # bs) m =
     visit_aabbs agent_position region bs
       (if aabb_contains agent_position b then dd_incr m region else m)"

fun visit_rooms :: "vec3 \<Rightarrow> (string \<times> aabb list) list \<Rightarrow> (string \<times> int) list \<Rightarrow> (string \<times> int) list" where
  "visit_rooms agent_position [] m = m"
| "visit_rooms agent_position ((region, bs) # rooms) m =
     visit_rooms agent_position rooms (visit_aabbs agent_position region bs m)"

definition rvm_update_metric :: "vec3 \<Rightarrow> rvm_state \<Rightarrow> rvm_state" where
  "rvm_update_metric agent_position s =
     (let rvm = visit_rooms agent_position (room_aabbs s) (room_visitation_map s);
          gvm = visit_rooms agent_position (goal_rooms s) (goal_room_visitation_map s)
      in s\<lparr>room_visitation_map := rvm, goal_room_visitation_map := gvm,
            rvm_metric := Some (Step_Metric (dd_values_sum gvm) rvm)\<rparr>)"

text \<open>
  \<^verbatim>\<open>goal.view_points[0].agent_state.position\<close>: subscripting \<^verbatim>\<open>None\<close> raises
  TypeError, subscripting an empty list raises IndexError.
\<close>

definition first_view_point :: "object_goal \<Rightarrow> error + vec3" where
  "first_view_point goal =
     (case view_points goal of
        None \<Rightarrow> Inl TypeError
      | Some [] \<Rightarrow> Inl IndexError
      | Some (v # _) \<Rightarrow> Inr v)"

fun goals_contained :: "object_goal list \<Rightarrow> aabb \<Rightarrow> bool \<Rightarrow> error + bool" where
  "goals_contained [] b contains = Inr contains"
| "goals_contained (goal # goals) b contains =
     (case first_view_point goal of
        Inl e \<Rightarrow> Inl e
      | Inr goal_position \<Rightarrow>
          goals_contained goals b (if aabb_contains goal_position b then True else contains))"

fun rvm_regions ::
  "region list \<Rightarrow> object_goal list \<Rightarrow>
   (string \<times> aabb list) list \<times> (string \<times> aabb list) list \<Rightarrow>
   error + (string \<times> aabb list) list \<times> (string \<times> aabb list) list" where
  "rvm_regions [] goals (ra, gr) = Inr (ra, gr)"
| "rvm_regions (r # rs) goals (ra, gr) =
     (let region_name = category_name r; b = region_aabb r;
          ra' = dd_append ra region_name b
      in case goals_contained goals b False of
           Inl e \<Rightarrow> Inl e
         | Inr contains \<Rightarrow>
             rvm_regions rs goals (ra', if contains then dd_append gr region_name b else gr))"

text \<open>
  \<^verbatim>\<open>reset_metric\<close> first runs one update on the state of the previous episode,
  then empties the four dictionaries and rebuilds the boxes and the goal rooms.
\<close>

definition rvm_reset_metric ::
  "region list \<Rightarrow> object_goal list \<Rightarrow> vec3 \<Rightarrow> rvm_state \<Rightarrow> error + rvm_state" where
  "rvm_reset_metric regions goals agent_position s =
     (let s1 = rvm_update_metric agent_position s
      in case rvm_regions regions goals ([], []) of
           Inl e \<Rightarrow> Inl e
         | Inr (ra, gr) \<Rightarrow>
             Inr (s1\<lparr>room_aabbs := ra, room_visitation_map := [],
                      goal_room_visitation_map := [], goal_rooms := gr,
                      rvm_metric := Some (Visitation_Map [])\<rparr>))"

definition rvm_run :: "vec3 list \<Rightarrow> rvm_state \<Rightarrow> rvm_state" where
  "rvm_run positions s = foldl (\<lambda>s' p. rvm_update_metric p s') s positions"

text \<open>
  The goal regions in the words of the specification: a region is a goal region when
  it contains at least one view point of some goal.
\<close>

definition spec_goal_region :: "object_goal list \<Rightarrow> aabb \<Rightarrow> bool" where
  "spec_goal_region goals b =
     list_ex (\<lambda>goal. case view_points goal of
                       None \<Rightarrow> False
                     | Some vs \<Rightarrow> list_ex (\<lambda>v. aabb_contains v b) vs) goals"

text \<open>What the code tests: the first view point of some goal.\<close>

definition first_view_point_in :: "object_goal list \<Rightarrow> aabb \<Rightarrow> bool" where
  "first_view_point_in goals b =
     list_ex (\<lambda>goal. case first_view_point goal of
                       Inl e \<Rightarrow> False
                     | Inr v \<Rightarrow> aabb_contains v b) goals"

definition marked :: "(string \<times> aabb list) list \<Rightarrow> string \<Rightarrow> aabb \<Rightarrow> bool" where
  "marked d name b = list_ex (\<lambda>(k, bs). k = name \<and> b \<in> set bs) d"


section \<open>Floating-point numbers\<close>

text \<open>
  The rewards, the distances and the coverage ratios are IEEE 754 binary64 floats
  (Python floats and numpy \<^verbatim>\<open>float64\<close>). A float is a finite value, an infinity or
  not-a-number; a finite float is given by its real value. An operation on finite
  floats returns the exact result rounded to the nearest float, ties to the even
  significand, and an infinity when the rounded value is out of range. Not-a-number
  absorbs every operation and compares false. The two zeros are not distinguished.
\<close>

datatype npfloat = Fin real | PInf | NInf | NaN

text \<open>Integer powers of two.\<close>

definition pow2 :: "int \<Rightarrow> real" where
  "pow2 k = (if 0 \<le> k then 2 ^ nat k else 1 / 2 ^ nat (- k))"

text \<open>Rounding to the nearest integer, ties to the even one.\<close>

definition rne :: "real \<Rightarrow> int" where
  "rne x =
     (let f = \<lfloor>x\<rfloor>; d = x - of_int f
      in if d < 1 / 2 then f else if d > 1 / 2 then f + 1
         else if even f then f else f + 1)"

text \<open>
  The exponent of the unit in the last place of the 53-bit significand at \<open>x\<close>; the
  subnormal numbers share the exponent -1074.
\<close>

definition ulp_exp :: "real \<Rightarrow> int" where
  "ulp_exp x = max (\<lfloor>log 2 \<bar>x\<bar>\<rfloor> - 52) (- 1074)"

definition round64 :: "real \<Rightarrow> npfloat" where
  "round64 x =
     (let e = ulp_exp x; y = of_int (rne (x / pow2 e)) * pow2 e
      in if \<bar>y\<bar> \<ge> pow2 1024 then (if x > 0 then PInf else NInf) else Fin y)"

fun fl_neg :: "npfloat \<Rightarrow> npfloat" where
  "fl_neg (Fin a) = Fin (- a)"
| "fl_neg PInf = NInf"
| "fl_neg NInf = PInf"
| "fl_neg NaN = NaN"

text \<open>
  Addition. Adding zero is exact and returns the other operand; the sum of two
  opposite infinities is not-a-number.
\<close>

fun fl_add :: "npfloat \<Rightarrow> npfloat \<Rightarrow> npfloat" where
  "fl_add NaN y = NaN"
| "fl_add x NaN = NaN"
| "fl_add (Fin a) (Fin b) =
     (if a = 0 then Fin b else if b = 0 then Fin a else round64 (a + b))"
| "fl_add PInf NInf = NaN"
| "fl_add NInf PInf = NaN"
| "fl_add PInf y = PInf"
| "fl_add NInf y = NInf"
| "fl_add (Fin a) y = y"

definition fl_sub :: "npfloat \<Rightarrow> npfloat \<Rightarrow> npfloat" where
  "fl_sub x y = fl_add x (fl_neg y)"

fun fl_mul :: "npfloat \<Rightarrow> npfloat \<Rightarrow> npfloat" where
  "fl_mul NaN y = NaN"
| "fl_mul x NaN = NaN"
| "fl_mul (Fin a) (Fin b) = round64 (a * b)"
| "fl_mul (Fin a) PInf = (if a > 0 then PInf else if a < 0 then NInf else NaN)"
| "fl_mul (Fin a) NInf = (if a > 0 then NInf else if a < 0 then PInf else NaN)"
| "fl_mul PInf (Fin b) = (if b > 0 then PInf else if b < 0 then NInf else NaN)"
| "fl_mul NInf (Fin b) = (if b > 0 then NInf else if b < 0 then PInf else NaN)"
| "fl_mul PInf PInf = PInf"
| "fl_mul NInf NInf = PInf"
| "fl_mul PInf NInf = NInf"
| "fl_mul NInf PInf = NInf"

fun fl_gt :: "npfloat \<Rightarrow> npfloat \<Rightarrow> bool" where
  "fl_gt NaN y = False"
| "fl_gt x NaN = False"
| "fl_gt (Fin a) (Fin b) = (a > b)"
| "fl_gt x PInf = False"
| "fl_gt NInf y = False"
| "fl_gt PInf y = True"
| "fl_gt (Fin a) NInf = True"

fun fl_ge :: "npfloat \<Rightarrow> npfloat \<Rightarrow> bool" where
  "fl_ge NaN y = False"
| "fl_ge x NaN = False"
| "fl_ge (Fin a) (Fin b) = (a \<ge> b)"
| "fl_ge x NInf = True"
| "fl_ge PInf y = True"
| "fl_ge NInf y = False"
| "fl_ge (Fin a) PInf = False"

fun is_finite :: "npfloat \<Rightarrow> bool" where
  "is_finite (Fin a) = True"
| "is_finite x = False"

text \<open>A float divided by a positive count.\<close>

fun fl_div_count :: "npfloat \<Rightarrow> int \<Rightarrow> npfloat" where
  "fl_div_count (Fin a) n = round64 (a / of_int n)"
| "fl_div_count x n = x"

text \<open>
  The quotient of two counts of numpy (sums over arrays, far below \<open>2^53\<close>, which
  convert to floats exactly). It never raises: a zero divisor gives an infinity or
  not-a-number, with a warning.
\<close>

definition np_true_divide :: "nat \<Rightarrow> nat \<Rightarrow> npfloat" where
  "np_true_divide a b =
     (if b \<noteq> 0 then round64 (real a / real b) else if a = 0 then NaN else PInf)"

section \<open>The top-down map and the coverage ratios\<close>

text \<open>
  The metric of the top-down map measure is \<^verbatim>\<open>None\<close> or two grids of the same
  shape, of unsigned bytes: the labelled map and the fog-of-war mask.
\<close>

record topdown =
  tdm_map :: "nat list list"
  fog_of_war_mask :: "nat list list"

definition np_where_sum :: "(nat \<Rightarrow> bool) \<Rightarrow> nat \<Rightarrow> nat \<Rightarrow> nat list list \<Rightarrow> nat" where
  "np_where_sum cond x y grid =
     sum_list (map (\<lambda>row. sum_list (map (\<lambda>c. if cond c then x else y) row)) grid)"

definition np_sum :: "nat list list \<Rightarrow> nat" where
  "np_sum grid = sum_list (map sum_list grid)"

definition np_size :: "nat list list \<Rightarrow> nat" where
  "np_size grid = sum_list (map length grid)"

definition get_navigable_area :: "topdown option \<Rightarrow> nat" where
  "get_navigable_area info =
     (case info of
        None \<Rightarrow> 0
      | Some i \<Rightarrow> np_where_sum (\<lambda>c. c = 1 \<or> c \<ge> 10) 1 0 (tdm_map i))"

definition get_coverage :: "topdown option \<Rightarrow> npfloat" where
  "get_coverage info =
     (case info of
        None \<Rightarrow> Fin 0
      | Some i \<Rightarrow>
          np_true_divide (np_where_sum (\<lambda>c. c \<le> 9) 0 1 (tdm_map i)) (get_navigable_area info))"

definition get_visible_area :: "topdown option \<Rightarrow> npfloat" where
  "get_visible_area info =
     (case info of
        None \<Rightarrow> Fin 0
      | Some i \<Rightarrow>
          (let visible_area = np_true_divide (np_sum (fog_of_war_mask i)) (get_navigable_area info)
           in if fl_gt visible_area (Fin 1) then Fin 1 else visible_area))"

definition empty_map :: topdown where
  "empty_map = \<lparr>tdm_map = [[0, 0], [0, 0]], fog_of_war_mask = [[0, 0], [0, 0]]\<rparr>"

section \<open>ExplorationMetrics\<close>

text \<open>\<^verbatim>\<open>needle in hay\<close> on strings.\<close>

fun starts_with :: "string \<Rightarrow> string \<Rightarrow> bool" where
  "starts_with [] hay = True"
| "starts_with (c # needle) [] = False"
| "starts_with (c # needle) (d # hay) = (c = d \<and> starts_with needle hay)"

fun str_in :: "string \<Rightarrow> string \<Rightarrow> bool" where
  "str_in needle [] = (needle = [])"
| "str_in needle (d # hay) = (starts_with needle (d # hay) \<or> str_in needle hay)"

text \<open>The decimal digits of a count, for \<^verbatim>\<open>"_{}".format(i)\<close>.\<close>

fun str_of_nat :: "nat \<Rightarrow> string" where
  "str_of_nat n =
     (if n < 10 then [char_of (48 + n)]
      else str_of_nat (n div 10) @ [char_of (48 + n mod 10)])"

declare str_of_nat.simps [simp del]

record exploration_metric =
  m_room_revisitation_map :: "(string \<times> int) list"
  m_coverage :: npfloat
  m_sight_coverage :: npfloat
  m_panoramic_turns :: int
  m_panoramic_turns_strict :: int
  m_beeline :: bool
  m_last_20_actions :: "string list"
  m_room_revisitation_map_strict :: "(string \<times> int) list"
  m_delta_sight_coverage :: npfloat
  m_avg_delta_coverage :: npfloat

datatype em_metric =
    Revisitation_Map "(string \<times> int) list"
  | Exploration_Metric exploration_metric

text \<open>
  The fields of the measure. \<^verbatim>\<open>coverage\<close> and \<^verbatim>\<open>sight_coverage\<close> exist only
  once an update has run.
\<close>

record em_state =
  em_room_aabbs :: "(string \<times> aabb list) list"
  previous_room_stack :: "string list"
  steps_between_rooms :: int
  em_room_visitation_map :: "(string \<times> int) list"
  room_revisitation_map :: "(string \<times> int) list"
  room_revisitation_map_strict :: "(string \<times> int) list"
  last_20_actions :: "string list"
  total_left_turns :: int
  total_right_turns :: int
  panoramic_turns :: int
  panoramic_turns_strict :: int
  delta_sight_coverage :: npfloat
  prev_sight_coverage :: npfloat
  avg_delta_coverage :: npfloat
  coverage :: "npfloat option"
  sight_coverage :: "npfloat option"
  previous_room :: "string option"
  em_metric :: "em_metric option"

text \<open>The state that the constructor leaves.\<close>

definition em_init :: em_state where
  "em_init =
     \<lparr>em_room_aabbs = [], previous_room_stack = [], steps_between_rooms = 0,
      em_room_visitation_map = [], room_revisitation_map = [],
      room_revisitation_map_strict = [], last_20_actions = [],
      total_left_turns = 0, total_right_turns = 0, panoramic_turns = 0,
      panoramic_turns_strict = 0, delta_sight_coverage = Fin 0,
      prev_sight_coverage = Fin 0, avg_delta_coverage = Fin 0,
      coverage = None, sight_coverage = None, previous_room = None, em_metric = None\<rparr>"

text \<open>
  The loops of \<^verbatim>\<open>reset_metric\<close> over the levels and their regions: the counter
  \<^verbatim>\<open>i\<close> numbers the regions, and the names of bedrooms get it as a suffix.
\<close>

fun em_level_regions ::
  "vec3 \<Rightarrow> region list \<Rightarrow> (string \<times> aabb list) list \<times> string option \<times> nat \<Rightarrow>
   (string \<times> aabb list) list \<times> string option \<times> nat" where
  "em_level_regions agent_position [] acc = acc"
| "em_level_regions agent_position (r # rs) (ra, current_room, i) =
     (let region_name =
            (if str_in ''bedroom'' (category_name r)
             then category_name r @ ''_'' @ str_of_nat i else category_name r);
          b = region_aabb r
      in em_level_regions agent_position rs
           (dd_append ra region_name b,
            if aabb_contains agent_position b then Some region_name else current_room,
            i + 1))"

fun em_levels ::
  "vec3 \<Rightarrow> region list list \<Rightarrow> (string \<times> aabb list) list \<times> string option \<times> nat \<Rightarrow>
   (string \<times> aabb list) list \<times> string option \<times> nat" where
  "em_levels agent_position [] acc = acc"
| "em_levels agent_position (level # levels) acc =
     em_levels agent_position levels (em_level_regions agent_position level acc)"

definition em_reset_metric :: "region list list \<Rightarrow> vec3 \<Rightarrow> em_state \<Rightarrow> em_state" where
  "em_reset_metric levels agent_position s =
     (case em_levels agent_position levels ([], None, 0) of
        (ra, current_room, i) \<Rightarrow>
          s\<lparr>em_room_aabbs := ra, em_room_visitation_map := [],
            room_revisitation_map := [], room_revisitation_map_strict := [],
            steps_between_rooms := 0, last_20_actions := [],
            total_left_turns := 0, total_right_turns := 0,
            panoramic_turns := 0, panoramic_turns_strict := 0,
            delta_sight_coverage := Fin 0, prev_sight_coverage := Fin 0,
            avg_delta_coverage := Fin 0,
            em_metric := Some (Revisitation_Map []),
            previous_room := current_room\<rparr>)"

definition is_peeking :: "string list \<Rightarrow> string option \<Rightarrow> bool" where
  "is_peeking stack current_room =
     (let prev_prev_room =
            (if length stack \<ge> 2 then Some (stack ! (length stack - 2)) else None);
          prev_room = (if length stack \<ge> 1 then Some (last stack) else None)
      in if prev_prev_room \<noteq> None \<and> prev_room \<noteq> None
         then (if prev_prev_room = current_room \<and> prev_room \<noteq> current_room
               then True else False)
         else False)"

fun beeline_loop :: "string list \<Rightarrow> int \<times> int \<Rightarrow> int \<times> int" where
  "beeline_loop [] acc = acc"
| "beeline_loop (action # actions) (count_move_forwards, max_move_forwards) =
     (let c = (if action \<noteq> ''MOVE_FORWARD'' then 0 else count_move_forwards + 1)
      in beeline_loop actions (c, max max_move_forwards c))"

text \<open>
  \<^verbatim>\<open>is_beeline\<close> divides by the length of the window; the update appends an
  action to the window before it calls it, so the divisor is positive.
\<close>

definition is_beeline :: "string list \<Rightarrow> bool" where
  "is_beeline actions =
     fl_ge (round64 (real_of_int (snd (beeline_loop actions (0, 0))) / real (length actions)))
       (Fin (1 / 2))"

text \<open>
  The first loop of \<^verbatim>\<open>update_metric\<close>: count the visit in every box that contains
  the agent; the current room is the region of the last such box.
\<close>

fun em_visit_aabbs ::
  "vec3 \<Rightarrow> string \<Rightarrow> aabb list \<Rightarrow> (string \<times> int) list \<times> string option \<Rightarrow>
   (string \<times> int) list \<times> string option" where
  "em_visit_aabbs agent_position region [] acc = acc"
| "em_visit_aabbs agent_position region (b # bs) (m, current_room) =
     em_visit_aabbs agent_position region bs
       (if aabb_contains agent_position b then (dd_incr m region, Some region)
        else (m, current_room))"

fun em_visit_rooms ::
  "vec3 \<Rightarrow> (string \<times> aabb list) list \<Rightarrow> (string \<times> int) list \<times> string option \<Rightarrow>
   (string \<times> int) list \<times> string option" where
  "em_visit_rooms agent_position [] acc = acc"
| "em_visit_rooms agent_position ((region, bs) # rooms) acc =
     em_visit_rooms agent_position rooms (em_visit_aabbs agent_position region bs acc)"

text \<open>
  The revisitation count of the current room on a detected peek: one more when the
  count is still 0, then one more.
\<close>

definition count_revisit :: "(string \<times> int) list \<Rightarrow> string \<Rightarrow> (string \<times> int) list" where
  "count_revisit m current_room =
     (let m1 = (if dd_get m current_room = 0 then dd_incr m current_room else m)
      in dd_incr m1 current_room)"

text \<open>
  \<^verbatim>\<open>ExplorationMetrics.update_metric\<close> is a sequence of blocks of statements, each
  of which updates a few fields. The blocks are modelled one by one, in the order of
  the source, and composed at the end.
\<close>

text \<open>Block 1: the loop over the boxes; gives the current room.\<close>

definition em_visit :: "vec3 \<Rightarrow> em_state \<Rightarrow> em_state \<times> string option" where
  "em_visit agent_position s =
     (case em_visit_rooms agent_position (em_room_aabbs s) (em_room_visitation_map s, None) of
        (rvm, current_room) \<Rightarrow> (s\<lparr>em_room_visitation_map := rvm\<rparr>, current_room))"

text \<open>
  Block 2: the two detections of a peek, on the stack and the step count as the
  previous update left them. Indexing the visitation counts with \<^verbatim>\<open>None\<close> gives 0.
\<close>

definition peek_detected :: "em_state \<Rightarrow> string option \<Rightarrow> bool" where
  "peek_detected s current_room =
     (is_peeking (previous_room_stack s) current_room \<and>
      (case current_room of
         None \<Rightarrow> False
       | Some r \<Rightarrow> dd_get (em_room_visitation_map s) r \<ge> 1) \<and>
      steps_between_rooms s \<le> 10)"

definition peek_detected_strict :: "em_state \<Rightarrow> string option \<Rightarrow> bool" where
  "peek_detected_strict s current_room =
     (is_peeking (previous_room_stack s) current_room \<and>
      (case current_room of
         None \<Rightarrow> False
       | Some r \<Rightarrow> dd_get (em_room_visitation_map s) r \<ge> 1) \<and>
      steps_between_rooms s \<ge> 8 \<and> steps_between_rooms s \<le> 14)"

definition em_count_revisits :: "string option \<Rightarrow> em_state \<Rightarrow> em_state" where
  "em_count_revisits current_room s =
     (case current_room of
        None \<Rightarrow> s
      | Some r \<Rightarrow>
          s\<lparr>room_revisitation_map :=
              (if peek_detected s current_room
               then count_revisit (room_revisitation_map s) r
               else room_revisitation_map s),
            room_revisitation_map_strict :=
              (if peek_detected_strict s current_room
               then count_revisit (room_revisitation_map_strict s) r
               else room_revisitation_map_strict s)\<rparr>)"

text \<open>Block 3: push a new current room on the stack, and count the step.\<close>

definition em_push_room :: "string option \<Rightarrow> em_state \<Rightarrow> em_state" where
  "em_push_room current_room s =
     (let s1 = (case current_room of
                  None \<Rightarrow> s
                | Some r \<Rightarrow>
                    if length (previous_room_stack s) = 0 \<or> last (previous_room_stack s) \<noteq> r
                    then s\<lparr>previous_room_stack := previous_room_stack s @ [r],
                           steps_between_rooms := 0\<rparr>
                    else s)
      in s1\<lparr>steps_between_rooms := steps_between_rooms s1 + 1\<rparr>)"

text \<open>Block 4: the two coverage ratios and the change of the sight coverage.\<close>

definition em_sight :: "topdown option \<Rightarrow> em_state \<Rightarrow> em_state" where
  "em_sight top_down_map s =
     (let c = get_coverage top_down_map; v = get_visible_area top_down_map
      in s\<lparr>coverage := Some c, sight_coverage := Some v,
            delta_sight_coverage := fl_sub v (prev_sight_coverage s),
            prev_sight_coverage := v\<rparr>)"

text \<open>Block 5: the window of the last 20 actions and the counts of turns.\<close>

definition em_action :: "string \<Rightarrow> em_state \<Rightarrow> em_state" where
  "em_action action_name s =
     (let appended = last_20_actions s @ [action_name];
          s1 = s\<lparr>last_20_actions := (if length appended > 20 then tl appended else appended)\<rparr>
      in if \<not> str_in ''TURN'' action_name
         then s1\<lparr>total_left_turns := 0, total_right_turns := 0,
                 delta_sight_coverage := Fin 0\<rparr>
         else if action_name = ''TURN_LEFT''
         then s1\<lparr>total_left_turns := total_left_turns s1 + 1\<rparr>
         else if action_name = ''TURN_RIGHT''
         then s1\<lparr>total_right_turns := total_right_turns s1 + 1\<rparr>
         else s1)"

text \<open>
  Block 6: the two sweep counts. The condition is the same but for the threshold: the
  float of the literal 0.015 for \<^verbatim>\<open>panoramic_turns\<close>, of the literal 0.01 for
  \<^verbatim>\<open>panoramic_turns_strict\<close>.
\<close>

definition sweep_threshold :: npfloat where
  "sweep_threshold = round64 (15 / 1000)"

definition sweep_threshold_strict :: npfloat where
  "sweep_threshold_strict = round64 (1 / 100)"

definition sweep_condition :: "em_state \<Rightarrow> npfloat \<Rightarrow> bool" where
  "sweep_condition s threshold =
     (total_left_turns s \<ge> 3 \<and> total_right_turns s \<ge> 3 \<and>
      total_right_turns s + total_left_turns s \<ge> 8 \<and>
      fl_gt (delta_sight_coverage s) threshold)"

definition em_sweeps :: "em_state \<Rightarrow> em_state" where
  "em_sweeps s =
     (let s1 = (if sweep_condition s sweep_threshold
                then s\<lparr>panoramic_turns := panoramic_turns s + 1\<rparr> else s)
      in if sweep_condition s1 sweep_threshold_strict
         then s1\<lparr>panoramic_turns_strict := panoramic_turns_strict s1 + 1,
                 avg_delta_coverage := fl_add (avg_delta_coverage s1) (delta_sight_coverage s1)\<rparr>
         else s1)"

text \<open>Block 7: the exported metric. Block 4 has set the two coverage fields.\<close>

definition em_export :: "em_state \<Rightarrow> em_state" where
  "em_export s =
     (let avg_cov = (if panoramic_turns_strict s > 0
                     then fl_div_count (avg_delta_coverage s) (panoramic_turns_strict s)
                     else Fin 0)
      in s\<lparr>em_metric := Some (Exploration_Metric
              \<lparr>m_room_revisitation_map = room_revisitation_map s,
               m_coverage = (case coverage s of Some c \<Rightarrow> c | None \<Rightarrow> Fin 0),
               m_sight_coverage = (case sight_coverage s of Some v \<Rightarrow> v | None \<Rightarrow> Fin 0),
               m_panoramic_turns = panoramic_turns s,
               m_panoramic_turns_strict = panoramic_turns_strict s,
               m_beeline = is_beeline (last_20_actions s),
               m_last_20_actions = last_20_actions s,
               m_room_revisitation_map_strict = room_revisitation_map_strict s,
               m_delta_sight_coverage = delta_sight_coverage s,
               m_avg_delta_coverage = avg_cov\<rparr>)\<rparr>)"

definition em_update_metric :: "topdown option \<Rightarrow> vec3 \<Rightarrow> string \<Rightarrow> em_state \<Rightarrow> em_state" where
  "em_update_metric top_down_map agent_position action_name s =
     (case em_visit agent_position s of
        (s1, current_room) \<Rightarrow>
          em_export (em_sweeps (em_action action_name (em_sight top_down_map
            (em_push_room current_room (em_count_revisits current_room s1))))))"

text \<open>One step of an episode as the measure sees it, and a run of steps.\<close>

record em_step =
  step_map :: "topdown option"
  step_position :: vec3
  step_action :: string

definition em_step_update :: "em_state \<Rightarrow> em_step \<Rightarrow> em_state" where
  "em_step_update s x = em_update_metric (step_map x) (step_position x) (step_action x) s"

definition em_run :: "em_step list \<Rightarrow> em_state \<Rightarrow> em_state" where
  "em_run steps s = foldl em_step_update s steps"

section \<open>The reward measures\<close>

text \<open>
  The configuration of a reward measure, and the metrics of the measures it depends
  on as they stand when it is updated. All three reward classes read their own
  configuration through the same field names. The distance to the goal is a float:
  the simulator gives an infinite distance when no path leads to the goal.
\<close>

record config =
  SLACK_REWARD :: npfloat
  SUCCESS_REWARD :: npfloat
  EXP_REWARD_COEF :: npfloat
  GOAL_SEEN_THRESHOLD :: npfloat
  GOAL_SEEN_REWARD :: npfloat
  MODE :: string

record measures =
  distance_to_goal :: npfloat
  top_down_map :: "topdown option"
  goal_vis :: npfloat
  success :: bool

subsection \<open>ObjectNavReward\<close>

text \<open>
  The attributes of the measure. The constructor creates none of them:
  \<^verbatim>\<open>reset_metric\<close> writes the first four, and \<^verbatim>\<open>_previous_exploration_ratio\<close>
  exists only once \<^verbatim>\<open>reward_exploration\<close> has run (\<^verbatim>\<open>hasattr\<close>): \<open>None\<close> is its
  absence. The host resets a measure before it updates it, so \<^verbatim>\<open>update_metric\<close>
  runs on states that a reset has written.
\<close>

record onr_state =
  onr_metric :: npfloat
  step_count :: int
  goal_was_seen :: bool
  previous_distance_to_target :: npfloat
  previous_exploration_ratio :: "npfloat option"

text \<open>
  A measure that has just been constructed: no exploration ratio is stored. The other
  fields stand for attributes that do not exist yet; \<^verbatim>\<open>reset_metric\<close> overwrites
  them before anything reads them.
\<close>

definition onr_init :: onr_state where
  "onr_init = \<lparr>onr_metric = Fin 0, step_count = 0, goal_was_seen = False,
               previous_distance_to_target = Fin 0, previous_exploration_ratio = None\<rparr>"

text \<open>The share of the fog-of-war mask that is set; 0.0 without a map.\<close>

definition exploration_ratio :: "topdown option \<Rightarrow> npfloat" where
  "exploration_ratio map_measures =
     (case map_measures of
        Some i \<Rightarrow> np_true_divide (np_sum (fog_of_war_mask i)) (np_size (fog_of_war_mask i))
      | None \<Rightarrow> Fin 0)"

definition reward_exploration :: "config \<Rightarrow> measures \<Rightarrow> onr_state \<Rightarrow> npfloat \<times> onr_state" where
  "reward_exploration cfg m s =
     (let ratio = exploration_ratio (top_down_map m);
          previous = (case previous_exploration_ratio s of None \<Rightarrow> ratio | Some r \<Rightarrow> r);
          reward = fl_add (Fin 0) (fl_mul (fl_sub ratio previous) (EXP_REWARD_COEF cfg))
      in (reward, s\<lparr>previous_exploration_ratio := Some ratio\<rparr>))"

definition reward_distance_to_goal :: "config \<Rightarrow> measures \<Rightarrow> onr_state \<Rightarrow> npfloat \<times> onr_state" where
  "reward_distance_to_goal cfg m s =
     (let distance_to_target = distance_to_goal m;
          reward = fl_add (Fin 0) (fl_sub (previous_distance_to_target s) distance_to_target)
      in (reward, s\<lparr>previous_distance_to_target := distance_to_target\<rparr>))"

definition reward_expl_dt_when_visible :: "config \<Rightarrow> measures \<Rightarrow> onr_state \<Rightarrow> npfloat \<times> onr_state" where
  "reward_expl_dt_when_visible cfg m s =
     (let goal_object_visible = goal_vis m;
          (reward, s1) =
            (if fl_gt goal_object_visible (GOAL_SEEN_THRESHOLD cfg) \<and> \<not> goal_was_seen s
             then (fl_add (Fin 0) (GOAL_SEEN_REWARD cfg),
                   s\<lparr>goal_was_seen := True,
                     previous_distance_to_target := distance_to_goal m\<rparr>)
             else (Fin 0, s));
          (r, s2) =
            (if goal_was_seen s1 then reward_distance_to_goal cfg m s1
             else reward_exploration cfg m s1)
      in (fl_add reward r, s2))"

definition update_metric :: "config \<Rightarrow> measures \<Rightarrow> onr_state \<Rightarrow> onr_state" where
  "update_metric cfg m s =
     (let s1 = s\<lparr>step_count := step_count s + 1\<rparr>;
          reward = (if step_count s1 > 20 then SLACK_REWARD cfg else Fin 0);
          (reward1, s2) =
            (if MODE cfg = ''DISTANCE_TO_GOAL_WHEN_VISIBLE_OTHERWISE_EXPLORE''
             then (let (r, s') = reward_expl_dt_when_visible cfg m s1 in (fl_add reward r, s'))
             else if MODE cfg = ''DISTANCE_TO_GOAL''
             then (let (r, s') = reward_distance_to_goal cfg m s1 in (fl_add reward r, s'))
             else if MODE cfg = ''EXPLORATION''
             then (let (r, s') = reward_exploration cfg m s1 in (fl_add reward r, s'))
             else (reward, s1));
          reward2 = (if success m then fl_add reward1 (SUCCESS_REWARD cfg) else reward1)
      in s2\<lparr>onr_metric := reward2\<rparr>)"

definition reset_metric :: "config \<Rightarrow> measures \<Rightarrow> onr_state \<Rightarrow> onr_state" where
  "reset_metric cfg m s =
     update_metric cfg m
       (s\<lparr>onr_metric := Fin 0, step_count := 0, goal_was_seen := False,
          previous_distance_to_target := distance_to_goal m\<rparr>)"

definition onr_run :: "config \<Rightarrow> measures list \<Rightarrow> onr_state \<Rightarrow> onr_state" where
  "onr_run cfg ms s = foldl (\<lambda>s' m. update_metric cfg m s') s ms"

text \<open>
  An episode: the reset on the first metrics, which runs the first update itself, and
  then one update for every step. The rewards that the measure exports along a run of
  updates, and along an episode.
\<close>

definition episode :: "config \<Rightarrow> measures \<Rightarrow> measures list \<Rightarrow> onr_state \<Rightarrow> onr_state" where
  "episode cfg m0 ms s = onr_run cfg ms (reset_metric cfg m0 s)"

fun run_metrics :: "config \<Rightarrow> measures list \<Rightarrow> onr_state \<Rightarrow> npfloat list" where
  "run_metrics cfg [] s = []"
| "run_metrics cfg (m # ms) s =
     onr_metric (update_metric cfg m s) # run_metrics cfg ms (update_metric cfg m s)"

definition episode_metrics :: "config \<Rightarrow> measures \<Rightarrow> measures list \<Rightarrow> onr_state \<Rightarrow> npfloat list" where
  "episode_metrics cfg m0 ms s =
     onr_metric (reset_metric cfg m0 s) # run_metrics cfg ms (reset_metric cfg m0 s)"

text \<open>
  The terms that every mode adds: the slack reward once the step count exceeds 20,
  before the shaping term, and the success reward on success, after it. Without a
  shaping term, and around one, at the update that makes the step count \<open>n\<close>.
\<close>

definition fixed_terms :: "config \<Rightarrow> measures \<Rightarrow> onr_state \<Rightarrow> npfloat" where
  "fixed_terms cfg m s =
     (let reward = (if step_count s + 1 > 20 then SLACK_REWARD cfg else Fin 0)
      in if success m then fl_add reward (SUCCESS_REWARD cfg) else reward)"

definition with_fixed_terms :: "config \<Rightarrow> int \<Rightarrow> measures \<Rightarrow> npfloat \<Rightarrow> npfloat" where
  "with_fixed_terms cfg n m shaping =
     (let reward = fl_add (if n > 20 then SLACK_REWARD cfg else Fin 0) shaping
      in if success m then fl_add reward (SUCCESS_REWARD cfg) else reward)"

text \<open>
  The hybrid mode in the words of the specification, as a machine of two phases. While
  exploring, a step whose goal visibility does not exceed the threshold is rewarded
  with the exploration term, the change of the exploration ratio since the previous
  ratio times the coefficient (the current ratio stands for a previous ratio that does
  not exist), and the ratio becomes the previous one. The first step whose visibility
  exceeds the threshold is rewarded with the goal-seen bonus and with the distance
  term on a baseline reset to the current distance, and ends the exploring. From then
  on a step is rewarded with the previous distance minus the current one. The slack
  and success terms are added at every step.
\<close>

datatype hybrid_phase = Exploring "npfloat option" | Seeking npfloat

definition exploration_term :: "config \<Rightarrow> npfloat option \<Rightarrow> npfloat \<Rightarrow> npfloat" where
  "exploration_term cfg previous ratio =
     fl_mul (fl_sub ratio (case previous of None \<Rightarrow> ratio | Some r \<Rightarrow> r)) (EXP_REWARD_COEF cfg)"

fun hybrid_spec :: "config \<Rightarrow> hybrid_phase \<Rightarrow> int \<Rightarrow> measures list \<Rightarrow> npfloat list" where
  "hybrid_spec cfg phase n [] = []"
| "hybrid_spec cfg (Exploring previous) n (m # ms) =
     (if fl_gt (goal_vis m) (GOAL_SEEN_THRESHOLD cfg)
      then with_fixed_terms cfg n m
             (fl_add (GOAL_SEEN_REWARD cfg) (fl_sub (distance_to_goal m) (distance_to_goal m))) #
           hybrid_spec cfg (Seeking (distance_to_goal m)) (n + 1) ms
      else with_fixed_terms cfg n m
             (exploration_term cfg previous (exploration_ratio (top_down_map m))) #
           hybrid_spec cfg (Exploring (Some (exploration_ratio (top_down_map m)))) (n + 1) ms)"
| "hybrid_spec cfg (Seeking previous_distance) n (m # ms) =
     with_fixed_terms cfg n m (fl_sub previous_distance (distance_to_goal m)) #
     hybrid_spec cfg (Seeking (distance_to_goal m)) (n + 1) ms"

text \<open>The phase that a state of the measure is in.\<close>

definition phase_of :: "onr_state \<Rightarrow> hybrid_phase" where
  "phase_of s =
     (if goal_was_seen s then Seeking (previous_distance_to_target s)
      else Exploring (previous_exploration_ratio s))"

subsection \<open>ObjectNavSparseReward and DistanceToGoalReward\<close>

record sparse_state =
  sparse_metric :: npfloat

definition sparse_update_metric :: "config \<Rightarrow> measures \<Rightarrow> sparse_state \<Rightarrow> sparse_state" where
  "sparse_update_metric cfg m s =
     (let reward = Fin 0;
          reward' = (if success m then fl_add reward (SUCCESS_REWARD cfg) else reward)
      in s\<lparr>sparse_metric := reward'\<rparr>)"

definition sparse_reset_metric :: "config \<Rightarrow> measures \<Rightarrow> sparse_state \<Rightarrow> sparse_state" where
  "sparse_reset_metric cfg m s = sparse_update_metric cfg m (s\<lparr>sparse_metric := Fin 0\<rparr>)"

record d2g_state =
  d2g_previous_distance_to_target :: npfloat
  d2g_metric :: npfloat

text \<open>The state that the constructor of \<^verbatim>\<open>DistanceToGoalReward\<close> leaves.\<close>

definition d2g_init :: d2g_state where
  "d2g_init = \<lparr>d2g_previous_distance_to_target = Fin 0, d2g_metric = Fin 0\<rparr>"

definition d2g_update_metric :: "config \<Rightarrow> measures \<Rightarrow> d2g_state \<Rightarrow> d2g_state" where
  "d2g_update_metric cfg m s =
     (let reward = Fin 0;
          distance_to_target = distance_to_goal m;
          s1 = s\<lparr>d2g_previous_distance_to_target := distance_to_target\<rparr>;
          reward1 = fl_add reward (fl_sub (d2g_previous_distance_to_target s1) distance_to_target);
          reward2 = (if success m then fl_add reward1 (SUCCESS_REWARD cfg) else reward1)
      in s1\<lparr>d2g_metric := reward2\<rparr>)"

definition d2g_reset_metric :: "config \<Rightarrow> measures \<Rightarrow> d2g_state \<Rightarrow> d2g_state" where
  "d2g_reset_metric cfg m s =
     d2g_update_metric cfg m
       (s\<lparr>d2g_metric := Fin 0, d2g_previous_distance_to_target := distance_to_goal m\<rparr>)"

definition d2g_run :: "config \<Rightarrow> measures list \<Rightarrow> d2g_state \<Rightarrow> d2g_state" where
  "d2g_run cfg ms s = foldl (\<lambda>s' m. d2g_update_metric cfg m s') s ms"

definition sparse_run :: "config \<Rightarrow> measures list \<Rightarrow> sparse_state \<Rightarrow> sparse_state" where
  "sparse_run cfg ms s = foldl (\<lambda>s' m. sparse_update_metric cfg m s') s ms"

text \<open>A goal whose first view point can be read.\<close>

definition has_view_point :: "object_goal \<Rightarrow> bool" where
  "has_view_point goal = (case first_view_point goal of Inl e \<Rightarrow> False | Inr v \<Rightarrow> True)"

text \<open>The boxes of a list of regions, appended under their names in order.\<close>

definition group_regions :: "(string \<times> aabb list) list \<Rightarrow> region list \<Rightarrow> (string \<times> aabb list) list" where
  "group_regions d rs = foldl (\<lambda>d' r. dd_append d' (category_name r) (region_aabb r)) d rs"

definition kitchen :: region where
  "kitchen = \<lparr>category_name = ''kitchen'', region_aabb = unit_box\<rparr>"

definition two_view_goal :: object_goal where
  "two_view_goal = \<lparr>view_points = Some [Vec3 5 0 0, Vec3 0 0 0]\<rparr>"

text \<open>The modes that \<^verbatim>\<open>update_metric\<close> tests for, and sample inputs.\<close>

definition recognised_modes :: "string list" where
  "recognised_modes =
     [''DISTANCE_TO_GOAL_WHEN_VISIBLE_OTHERWISE_EXPLORE'', ''DISTANCE_TO_GOAL'', ''EXPLORATION'']"

definition hybrid :: string where
  "hybrid = ''DISTANCE_TO_GOAL_WHEN_VISIBLE_OTHERWISE_EXPLORE''"

definition example_config :: "string \<Rightarrow> config" where
  "example_config mode =
     \<lparr>SLACK_REWARD = Fin (- (1 / 128)), SUCCESS_REWARD = Fin 10, EXP_REWARD_COEF = Fin 1,
      GOAL_SEEN_THRESHOLD = Fin (1 / 8), GOAL_SEEN_REWARD = Fin 1, MODE = mode\<rparr>"

definition half_seen_map :: topdown where
  "half_seen_map = \<lparr>tdm_map = [[1, 1], [1, 1]], fog_of_war_mask = [[1, 1], [0, 0]]\<rparr>"

definition unseen_map :: topdown where
  "unseen_map = \<lparr>tdm_map = [[1, 1], [1, 1]], fog_of_war_mask = [[0, 0], [0, 0]]\<rparr>"

definition seen_map :: topdown where
  "seen_map = \<lparr>tdm_map = [[1, 1], [1, 1]], fog_of_war_mask = [[1, 1], [1, 1]]\<rparr>"

definition example_measures :: "real \<Rightarrow> topdown \<Rightarrow> real \<Rightarrow> measures" where
  "example_measures d t v =
     \<lparr>distance_to_goal = Fin d, top_down_map = Some t, goal_vis = Fin v, success = False\<rparr>"

text \<open>The metrics of a step on which no path leads to the goal.\<close>

definition unreachable_measures :: measures where
  "unreachable_measures =
     \<lparr>distance_to_goal = PInf, top_down_map = Some unseen_map, goal_vis = Fin 0,
      success = False\<rparr>"

text \<open>The metrics of a step on which nothing changes and the goal is not in view.\<close>

definition quiet :: measures where
  "quiet = example_measures 3 unseen_map 0"

subsection \<open>Turns, peeks and sample walks\<close>

text \<open>A step that turns left or right, with the map and the position at that step.\<close>

definition left_turn :: "topdown option \<Rightarrow> vec3 \<Rightarrow> em_step" where
  "left_turn t p = \<lparr>step_map = t, step_position = p, step_action = ''TURN_LEFT''\<rparr>"

definition right_turn :: "topdown option \<Rightarrow> vec3 \<Rightarrow> em_step" where
  "right_turn t p = \<lparr>step_map = t, step_position = p, step_action = ''TURN_RIGHT''\<rparr>"

text \<open>
  A peek is detected for a room at an update when the room is the current room of the
  update and the detection of block 2 holds; the counts of such updates along a run.
\<close>

definition em_peek :: "vec3 \<Rightarrow> em_state \<Rightarrow> string \<Rightarrow> bool" where
  "em_peek agent_position s r =
     (snd (em_visit agent_position s) = Some r \<and>
      peek_detected (fst (em_visit agent_position s)) (Some r))"

definition em_peek_strict :: "vec3 \<Rightarrow> em_state \<Rightarrow> string \<Rightarrow> bool" where
  "em_peek_strict agent_position s r =
     (snd (em_visit agent_position s) = Some r \<and>
      peek_detected_strict (fst (em_visit agent_position s)) (Some r))"

fun peek_count :: "string \<Rightarrow> em_step list \<Rightarrow> em_state \<Rightarrow> int" where
  "peek_count r [] s = 0"
| "peek_count r (x # xs) s =
     (if em_peek (step_position x) s r then 1 else 0) + peek_count r xs (em_step_update s x)"

fun peek_count_strict :: "string \<Rightarrow> em_step list \<Rightarrow> em_state \<Rightarrow> int" where
  "peek_count_strict r [] s = 0"
| "peek_count_strict r (x # xs) s =
     (if em_peek_strict (step_position x) s r then 1 else 0) +
     peek_count_strict r xs (em_step_update s x)"

text \<open>The revisitation count after an update, from the count before it.\<close>

definition revisits :: "int \<Rightarrow> bool \<Rightarrow> int" where
  "revisits c detected = (if detected then (if c = 0 then 2 else c + 1) else c)"

text \<open>A scene of two rooms, ten units apart, and walks in it.\<close>

definition hallway :: region where
  "hallway = \<lparr>category_name = ''hallway'', region_aabb = unit_box\<rparr>"

definition far_kitchen :: region where
  "far_kitchen = \<lparr>category_name = ''kitchen'',
                  region_aabb = \<lparr>center = Vec3 10 0 0, sizes = Vec3 2 2 2\<rparr>\<rparr>"

definition forward_at :: "vec3 \<Rightarrow> em_step" where
  "forward_at p = \<lparr>step_map = None, step_position = p, step_action = ''MOVE_FORWARD''\<rparr>"

definition two_rooms_start :: em_state where
  "two_rooms_start = em_reset_metric [[hallway, far_kitchen]] (Vec3 0 0 0) em_init"

text \<open>The test of block 3.\<close>

definition push_room :: "string option \<Rightarrow> string list \<Rightarrow> bool" where
  "push_room current_room stack =
     (case current_room of None \<Rightarrow> False | Some r \<Rightarrow> length stack = 0 \<or> last stack \<noteq> r)"

definition two_rooms :: "(string \<times> aabb list) list" where
  "two_rooms = [(''hallway'', [unit_box]),
                (''kitchen'', [\<lparr>center = Vec3 10 0 0, sizes = Vec3 2 2 2\<rparr>])]"

definition peek_walk :: "em_step list" where
  "peek_walk = [forward_at (Vec3 0 0 0), forward_at (Vec3 10 0 0), forward_at (Vec3 0 0 0)]"

text \<open>Eight steps into a stay in the kitchen that began in the hallway.\<close>

definition kitchen_stay :: em_state where
  "kitchen_stay =
     two_rooms_start\<lparr>em_room_visitation_map := [(''hallway'', 1), (''kitchen'', 8)],
                     previous_room_stack := [''hallway'', ''kitchen''],
                     steps_between_rooms := 8\<rparr>"

definition still :: vec3 where
  "still = Vec3 0 0 0"

definition four_lefts :: "em_step list" where
  "four_lefts = [left_turn None still, left_turn None still, left_turn None still,
                 left_turn None still]"

definition four_rights :: "em_step list" where
  "four_rights = [right_turn None still, right_turn None still,
                  right_turn (Some unseen_map) still, right_turn (Some seen_map) still]"

text \<open>A step on which the goal visibility exceeds the threshold.\<close>

definition crossing :: "config \<Rightarrow> measures \<Rightarrow> bool" where
  "crossing cfg m = fl_gt (goal_vis m) (GOAL_SEEN_THRESHOLD cfg)"

text \<open>
  The steps of an episode after its reset: the map half seen, the goal coming into
  view on the second of them.
\<close>

definition hybrid_walk :: "measures list" where
  "hybrid_walk =
     [example_measures 4 half_seen_map (1 / 16),
      example_measures 3 half_seen_map (1 / 4),
      example_measures 2 half_seen_map (1 / 16)]"

section \<open>Floating-point arithmetic\<close>

lemma pow2_pos: "0 < pow2 k"
  by (simp add: pow2_def)

lemma pow2_powr: "pow2 k = 2 powr (of_int k)"
  by (simp add: pow2_def powr_real_of_int field_simps)

lemma pow2_mono: "a \<le> b \<Longrightarrow> pow2 a \<le> pow2 b"
  unfolding pow2_powr by (intro powr_mono) simp_all

lemma rne_of_int: "rne (of_int z) = z"
  by (simp add: rne_def)

lemma round64_0: "round64 0 = Fin 0"
  by (simp add: round64_def rne_def pow2_def)

lemma floor_log2:
  assumes "pow2 k \<le> x" "x < pow2 (k + 1)"
  shows "\<lfloor>log 2 x\<rfloor> = k"
proof -
  have pos: "0 < x" using assms(1) pow2_pos [of k] by linarith
  have "of_int k \<le> log 2 x"
    using assms(1) pos by (simp add: le_log_iff pow2_powr)
  moreover have "log 2 x < of_int k + 1"
    using assms(2) pos by (simp add: log_less_iff pow2_powr)
  ultimately show ?thesis by (simp add: floor_eq_iff)
qed

lemma ulp_exp_binade:
  assumes "pow2 k \<le> \<bar>x\<bar>" "\<bar>x\<bar> < pow2 (k + 1)" "- 1022 \<le> k"
  shows "ulp_exp x = k - 52"
  using floor_log2 [OF assms(1,2)] assms(3) by (simp add: ulp_exp_def)

lemma round64_binade:
  assumes "pow2 k \<le> \<bar>x\<bar>" "\<bar>x\<bar> < pow2 (k + 1)" "- 1022 \<le> k"
    "\<bar>of_int (rne (x / pow2 (k - 52))) * pow2 (k - 52)\<bar> < pow2 1024"
  shows "round64 x = Fin (of_int (rne (x / pow2 (k - 52))) * pow2 (k - 52))"
  using assms(4) by (simp add: round64_def ulp_exp_binade [OF assms(1-3)] Let_def)

lemma round64_exact:
  assumes "pow2 k \<le> \<bar>x\<bar>" "\<bar>x\<bar> < pow2 (k + 1)" "- 1022 \<le> k" "k \<le> 1023"
    "x / pow2 (k - 52) = of_int z"
  shows "round64 x = Fin x"
proof -
  have y: "of_int (rne (x / pow2 (k - 52))) * pow2 (k - 52) = x"
    using assms(5) pow2_pos [of "k - 52"] by (simp add: rne_of_int field_simps)
  have "pow2 (k + 1) \<le> pow2 1024"
    using assms(4) by (intro pow2_mono) simp
  with assms(2) have "\<bar>x\<bar> < pow2 1024" by linarith
  with round64_binade [OF assms(1-3)] y show ?thesis by simp
qed

lemma round64_values:
  "round64 1 = Fin 1"
  "round64 (1 / 2) = Fin (1 / 2)"
  "round64 (- (1 / 2)) = Fin (- (1 / 2))"
  using round64_exact [of 0 1 "2 ^ 52"] round64_exact [of "- 1" "1 / 2" "2 ^ 52"]
    round64_exact [of "- 1" "- (1 / 2)" "- (2 ^ 52)"]
  by (simp_all add: pow2_def)

lemma round64_thresholds:
  "round64 (15 / 1000) = Fin (8646911284551352 / 2 ^ 59)"
  "round64 (1 / 100) = Fin (5764607523034235 / 2 ^ 59)"
  using round64_binade [of "- 7" "15 / 1000"] round64_binade [of "- 7" "1 / 100"]
  by (simp_all add: pow2_def rne_def Let_def)

lemma fl_add_zero: "fl_add (Fin 0) x = x" "fl_add x (Fin 0) = x"
  by (cases x; simp)+

lemma fl_sub_self: "fl_sub (Fin d) (Fin d) = Fin 0"
  by (simp add: fl_sub_def round64_0)

lemma fl_sub_not_finite: "\<not> is_finite x \<Longrightarrow> fl_sub x x = NaN"
  by (cases x) (simp_all add: fl_sub_def)

lemma np_true_divide_zero: "np_true_divide 0 b = (if b = 0 then NaN else Fin 0)"
  by (simp add: np_true_divide_def round64_0)

section \<open>Containment\<close>


lemma aabb_contains_iff:
  "aabb_contains p b \<longleftrightarrow>
     (coord (center b) 0 - coord (sizes b) 0 / 2 \<le> coord p 0 \<and>
      coord p 0 \<le> coord (center b) 0 + coord (sizes b) 0 / 2) \<and>
     (coord (center b) 1 - coord (sizes b) 1 / 2 \<le> coord p 1 \<and>
      coord p 1 \<le> coord (center b) 1 + coord (sizes b) 1 / 2) \<and>
     (coord (center b) 2 - coord (sizes b) 2 / 2 \<le> coord p 2 \<and>
      coord p 2 \<le> coord (center b) 2 + coord (sizes b) 2 / 2)"
  by (auto simp add: aabb_contains_def aabb_min_def aabb_max_def Let_def)




section \<open>Coverage ratios\<close>

lemma cell_visited_le_navigable:
  "(if c \<le> 9 then 0 else 1) \<le> (if c = 1 \<or> c \<ge> 10 then 1 else (0::nat))" for c :: nat
  by simp

lemma visited_le_navigable:
  "np_where_sum (\<lambda>c. c \<le> 9) 0 1 g \<le> np_where_sum (\<lambda>c. c = 1 \<or> c \<ge> 10) 1 0 g"
  unfolding np_where_sum_def
  by (intro sum_list_mono) (auto intro!: sum_list_mono)

lemma no_navigable_no_visited:
  "get_navigable_area (Some i) = 0 \<Longrightarrow> np_where_sum (\<lambda>c. c \<le> 9) 0 1 (tdm_map i) = 0"
  using visited_le_navigable [of "tdm_map i"] by (simp add: get_navigable_area_def)

text \<open>
  C2 (amended). Without a map (\<^verbatim>\<open>None\<close>) the coverage ratio and the visible-area
  ratio are both 0. With a map whose navigable-area count is 0 no exception is raised,
  but the ratios are quotients by zero and not 0: the coverage is not-a-number, and
  the visible area is not-a-number when the fog-of-war mask is empty of set cells and
  1.0 (the infinity, clamped) otherwise.
\<close>

theorem coverage_without_navigable_area:
  "get_coverage None = Fin 0 \<and> get_visible_area None = Fin 0 \<and>
   (get_navigable_area (Some i) = 0 \<longrightarrow>
      get_coverage (Some i) = NaN \<and>
      get_visible_area (Some i) = (if np_sum (fog_of_war_mask i) = 0 then NaN else Fin 1))"
proof (intro conjI impI)
  show "get_coverage None = Fin 0" by (simp add: get_coverage_def)
  show "get_visible_area None = Fin 0" by (simp add: get_visible_area_def)
next
  assume nav: "get_navigable_area (Some i) = 0"
  then have "np_where_sum (\<lambda>c. c \<le> 9) 0 1 (tdm_map i) = 0"
    by (rule no_navigable_no_visited)
  with nav show "get_coverage (Some i) = NaN"
    by (simp add: get_coverage_def np_true_divide_def)
next
  assume nav: "get_navigable_area (Some i) = 0"
  then show "get_visible_area (Some i) = (if np_sum (fog_of_war_mask i) = 0 then NaN else Fin 1)"
    by (simp add: get_visible_area_def np_true_divide_def Let_def)
qed

text \<open>
  C2 (as stated, refuted). The claim: a map whose navigable-area count is 0 gives 0 for
  both ratios. On a map of four cells labelled 0, with no cell of the mask set, the
  navigable area is 0 and neither ratio is 0: both are not-a-number.
\<close>

theorem coverage_zero_counterexample:
  "get_navigable_area (Some empty_map) = 0 \<and>
   get_coverage (Some empty_map) \<noteq> Fin 0 \<and>
   get_visible_area (Some empty_map) \<noteq> Fin 0"
  by (simp add: get_coverage_def get_visible_area_def get_navigable_area_def
      np_true_divide_def np_where_sum_def np_sum_def empty_map_def Let_def)

theorem coverage_without_navigable_area_witness:
  "get_navigable_area (Some empty_map) = 0 \<and>
   get_coverage (Some empty_map) = NaN \<and> get_visible_area (Some empty_map) = NaN"
proof -
  have h: "get_navigable_area (Some empty_map) = 0"
    by (simp add: get_navigable_area_def np_where_sum_def empty_map_def)
  have m: "np_sum (fog_of_war_mask empty_map) = 0"
    by (simp add: np_sum_def empty_map_def)
  show ?thesis
    using coverage_without_navigable_area [of empty_map] h m by simp
qed

section \<open>Visitation counts\<close>
lemma dd_get_incr: "dd_get (dd_incr m k) r = dd_get m r + (if r = k then 1 else 0)"
  by (induction m) auto

lemma dd_values_sum_incr: "dd_values_sum (dd_incr m k) = dd_values_sum m + 1"
  by (induction m) (auto simp: dd_values_sum_def)

lemma visit_aabbs_mono:
  "dd_get m r \<le> dd_get (visit_aabbs p region bs m) r \<and>
   dd_values_sum m \<le> dd_values_sum (visit_aabbs p region bs m)"
proof (induction bs arbitrary: m)
  case Nil
  show ?case by simp
next
  case (Cons b bs)
  show ?case
  proof (cases "aabb_contains p b")
    case True
    have "dd_get m r \<le> dd_get (dd_incr m region) r" by (simp add: dd_get_incr)
    moreover have "dd_values_sum m \<le> dd_values_sum (dd_incr m region)"
      by (simp add: dd_values_sum_incr)
    ultimately show ?thesis using Cons [of "dd_incr m region"] True by auto
  next
    case False
    then show ?thesis using Cons [of m] by simp
  qed
qed

lemma visit_rooms_mono:
  "dd_get m r \<le> dd_get (visit_rooms p rooms m) r \<and>
   dd_values_sum m \<le> dd_values_sum (visit_rooms p rooms m)"
proof (induction rooms arbitrary: m)
  case Nil
  show ?case by simp
next
  case (Cons room rooms)
  obtain region bs where room: "room = (region, bs)" by (cases room)
  show ?case
    using visit_aabbs_mono [of m r p region bs] Cons [of "visit_aabbs p region bs m"] room
    by auto
qed

lemma rvm_update_mono:
  "dd_get (room_visitation_map s) r \<le> dd_get (room_visitation_map (rvm_update_metric p s)) r \<and>
   dd_get (goal_room_visitation_map s) r
     \<le> dd_get (goal_room_visitation_map (rvm_update_metric p s)) r \<and>
   dd_values_sum (goal_room_visitation_map s)
     \<le> dd_values_sum (goal_room_visitation_map (rvm_update_metric p s))"
  using visit_rooms_mono [of "room_visitation_map s" r p "room_aabbs s"]
    visit_rooms_mono [of "goal_room_visitation_map s" r p "goal_rooms s"]
  by (simp add: rvm_update_metric_def Let_def)

lemma rvm_run_append: "rvm_run (ps @ qs) s = rvm_run qs (rvm_run ps s)"
  by (simp add: rvm_run_def)

lemma rvm_run_mono:
  "dd_get (room_visitation_map s) r \<le> dd_get (room_visitation_map (rvm_run qs s)) r \<and>
   dd_get (goal_room_visitation_map s) r \<le> dd_get (goal_room_visitation_map (rvm_run qs s)) r \<and>
   dd_values_sum (goal_room_visitation_map s)
     \<le> dd_values_sum (goal_room_visitation_map (rvm_run qs s))"
proof (induction qs arbitrary: s)
  case Nil
  show ?case by (simp add: rvm_run_def)
next
  case (Cons q qs)
  have step: "rvm_run (q # qs) s = rvm_run qs (rvm_update_metric q s)"
    by (simp add: rvm_run_def)
  show ?case
    unfolding step
    using rvm_update_mono [of s r q] Cons [of "rvm_update_metric q s"]
    by linarith
qed

text \<open>
  C5. Along any sequence of updates of \<^verbatim>\<open>RoomVisitationMap\<close> within an episode,
  the visitation count of every region, the goal-room visitation count of every
  region and the exported sum of the goal-room counts never decrease: the state after
  a longer run of steps dominates the state after any prefix of it.
\<close>

theorem visitation_counts_monotone:
  "dd_get (room_visitation_map (rvm_run ps s)) r
     \<le> dd_get (room_visitation_map (rvm_run (ps @ qs) s)) r \<and>
   dd_get (goal_room_visitation_map (rvm_run ps s)) r
     \<le> dd_get (goal_room_visitation_map (rvm_run (ps @ qs) s)) r \<and>
   dd_values_sum (goal_room_visitation_map (rvm_run ps s))
     \<le> dd_values_sum (goal_room_visitation_map (rvm_run (ps @ qs) s))"
  unfolding rvm_run_append by (rule rvm_run_mono)

section \<open>Goal rooms\<close>

lemma goals_contained_ok:
  "list_all has_view_point goals \<Longrightarrow>
   goals_contained goals b c = Inr (c \<or> first_view_point_in goals b)"
proof (induction goals arbitrary: c)
  case Nil
  show ?case by (simp add: first_view_point_in_def)
next
  case (Cons g goals)
  from Cons.prems obtain v where v: "first_view_point g = Inr v"
    by (auto simp: has_view_point_def split: sum.splits)
  from Cons.prems have rest: "list_all has_view_point goals" by simp
  show ?case
    using Cons.IH [OF rest] v by (auto simp: first_view_point_in_def)
qed

lemma rvm_regions_ok:
  "list_all has_view_point goals \<Longrightarrow>
   rvm_regions rs goals (ra, gr) =
     Inr (group_regions ra rs,
          group_regions gr (filter (\<lambda>r. first_view_point_in goals (region_aabb r)) rs))"
proof (induction rs arbitrary: ra gr)
  case Nil
  show ?case by (simp add: group_regions_def)
next
  case (Cons r rs)
  show ?case
    using Cons.IH [OF Cons.prems] goals_contained_ok [OF Cons.prems, of "region_aabb r" False]
    by (simp add: group_regions_def Let_def)
qed

lemma marked_Nil: "marked [] name b = False"
  by (simp add: marked_def)

lemma marked_Cons:
  "marked ((k, bs) # d) name b \<longleftrightarrow> (k = name \<and> b \<in> set bs) \<or> marked d name b"
  by (simp add: marked_def)

lemma marked_dd_append:
  "marked (dd_append d k v) name b \<longleftrightarrow> marked d name b \<or> (k = name \<and> v = b)"
proof (induction d)
  case Nil
  show ?case by (auto simp: marked_Nil marked_Cons)
next
  case (Cons kv d)
  obtain k' vs where kv: "kv = (k', vs)" by (cases kv)
  show ?case
    unfolding kv using Cons.IH by (auto simp: marked_Cons)
qed

lemma marked_group_regions:
  "marked (group_regions d rs) name b \<longleftrightarrow>
   marked d name b \<or> (\<exists>r\<in>set rs. category_name r = name \<and> region_aabb r = b)"
proof (induction rs arbitrary: d)
  case Nil
  show ?case by (simp add: group_regions_def)
next
  case (Cons r rs)
  have step: "group_regions d (r # rs) =
      group_regions (dd_append d (category_name r) (region_aabb r)) rs"
    by (simp add: group_regions_def)
  show ?case
    unfolding step Cons.IH marked_dd_append by auto
qed

text \<open>
  C6 (amended). When every goal of the episode has a first view point, the reset of
  \<^verbatim>\<open>RoomVisitationMap\<close> returns, and it marks a box under a region name as a goal
  room iff the scene has a region of that name and box and the box contains the first
  view point of some goal. The other view points of a goal are not read.
\<close>

theorem goal_rooms_first_view_point:
  assumes "list_all has_view_point goals"
  shows "\<exists>s'. rvm_reset_metric regions goals p s = Inr s' \<and>
           (\<forall>name b. marked (goal_rooms s') name b \<longleftrightarrow>
              (\<exists>r\<in>set regions. category_name r = name \<and> region_aabb r = b \<and>
                 first_view_point_in goals b))"
proof -
  let ?gr = "group_regions [] (filter (\<lambda>r. first_view_point_in goals (region_aabb r)) regions)"
  let ?s1 = "rvm_update_metric p s"
  let ?s' = "?s1\<lparr>room_aabbs := group_regions [] regions, room_visitation_map := [],
                 goal_room_visitation_map := [], goal_rooms := ?gr,
                 rvm_metric := Some (Visitation_Map [])\<rparr>"
  have "rvm_reset_metric regions goals p s = Inr ?s'"
    by (simp add: rvm_reset_metric_def rvm_regions_ok [OF assms] Let_def)
  moreover have "marked (goal_rooms ?s') name b \<longleftrightarrow>
      (\<exists>r\<in>set regions. category_name r = name \<and> region_aabb r = b \<and>
         first_view_point_in goals b)" for name b
    by (auto simp: marked_group_regions marked_Nil)
  ultimately show ?thesis by blast
qed

text \<open>
  C6 (as stated, refuted). The claim: a region is a goal region iff it contains at
  least one view point of some goal. A goal with the view points (5, 0, 0) and
  (0, 0, 0) has its second view point in the kitchen, the box of centre 0 and
  extents 2, and the reset leaves the goal rooms empty.
\<close>

theorem goal_rooms_counterexample:
  "spec_goal_region [two_view_goal] (region_aabb kitchen) \<and>
   map_sum id goal_rooms (rvm_reset_metric [kitchen] [two_view_goal] (Vec3 0 0 0) rvm_init)
     = Inr []"
  by (simp add: spec_goal_region_def two_view_goal_def kitchen_def unit_box_def
      aabb_contains_iff rvm_reset_metric_def first_view_point_def Let_def)

theorem goal_rooms_first_view_point_witness:
  "list_all has_view_point [two_view_goal] \<and>
   \<not> first_view_point_in [two_view_goal] unit_box \<and>
   (\<exists>s'. rvm_reset_metric [kitchen] [two_view_goal] (Vec3 0 0 0) rvm_init = Inr s' \<and>
      \<not> marked (goal_rooms s') ''kitchen'' unit_box)"
proof -
  have h: "list_all has_view_point [two_view_goal]"
    by (simp add: has_view_point_def first_view_point_def two_view_goal_def)
  have n: "\<not> first_view_point_in [two_view_goal] unit_box"
    by (simp add: first_view_point_in_def first_view_point_def two_view_goal_def
        aabb_contains_iff unit_box_def)
  from goal_rooms_first_view_point [OF h, of "[kitchen]" "Vec3 0 0 0" rvm_init]
  obtain s' where s': "rvm_reset_metric [kitchen] [two_view_goal] (Vec3 0 0 0) rvm_init = Inr s'"
    and m: "\<forall>name b. marked (goal_rooms s') name b \<longleftrightarrow>
              (\<exists>r\<in>set [kitchen]. category_name r = name \<and> region_aabb r = b \<and>
                 first_view_point_in [two_view_goal] b)"
    by blast
  from m n have "\<not> marked (goal_rooms s') ''kitchen'' unit_box" by simp
  with h n s' show ?thesis by blast
qed

text \<open>
  With a region to test and a goal without a first view point, the reset raises.
\<close>

lemma rvm_reset_raises:
  "regions \<noteq> [] \<Longrightarrow> \<not> list_all has_view_point goals \<Longrightarrow>
   \<exists>e. rvm_reset_metric regions goals p s = Inl e"
proof -
  assume ne: "regions \<noteq> []" and bad: "\<not> list_all has_view_point goals"
  have g: "\<exists>e. goals_contained goals b c = Inl e" for b c
    using bad
  proof (induction goals arbitrary: c)
    case Nil
    then show ?case by simp
  next
    case (Cons g goals)
    then show ?case
      by (cases "first_view_point g") (auto simp: has_view_point_def)
  qed
  from ne obtain r rs where "regions = r # rs" by (cases regions) auto
  with g [of "region_aabb r" False] show ?thesis
    by (auto simp: rvm_reset_metric_def Let_def)
qed

section \<open>Reward shaping\<close>

lemma exploration_ratio_examples:
  "exploration_ratio (Some unseen_map) = Fin 0"
  "exploration_ratio (Some half_seen_map) = Fin (1 / 2)"
  by (simp_all add: exploration_ratio_def np_true_divide_def np_sum_def np_size_def
      unseen_map_def half_seen_map_def round64_0 round64_values)

text \<open>
  C1 (amended). For a configured mode that is none of the three that
  \<^verbatim>\<open>update_metric\<close> tests for, the update returns: it counts the step and sets the
  metric to the slack and success terms alone, with no shaping term, and leaves the
  rest of the state as it was.
\<close>

theorem unrecognised_mode_no_shaping:
  "MODE cfg \<notin> set recognised_modes \<Longrightarrow>
   update_metric cfg m s =
     s\<lparr>step_count := step_count s + 1, onr_metric := fixed_terms cfg m s\<rparr>"
  by (simp add: update_metric_def recognised_modes_def fixed_terms_def Let_def)

text \<open>
  C1 (as stated, refuted). The claim: an update under an unrecognised mode raises.
  Under the mode \<^verbatim>\<open>CURIOSITY\<close>, the reset of a measure that has just been
  constructed, which runs the first update, returns the state with one step counted,
  the distance baseline 3 and the metric 0; the update of the next step returns it
  with two steps counted and the metric 0.
\<close>

theorem unrecognised_mode_counterexample:
  "reset_metric (example_config ''CURIOSITY'') (example_measures 3 half_seen_map 0) onr_init =
     \<lparr>onr_metric = Fin 0, step_count = 1, goal_was_seen = False,
      previous_distance_to_target = Fin 3, previous_exploration_ratio = None\<rparr> \<and>
   update_metric (example_config ''CURIOSITY'') (example_measures 2 half_seen_map 0)
     (reset_metric (example_config ''CURIOSITY'') (example_measures 3 half_seen_map 0) onr_init) =
     \<lparr>onr_metric = Fin 0, step_count = 2, goal_was_seen = False,
      previous_distance_to_target = Fin 3, previous_exploration_ratio = None\<rparr>"
  by (simp add: reset_metric_def update_metric_def example_config_def example_measures_def
      onr_init_def Let_def)

theorem unrecognised_mode_no_shaping_witness:
  "MODE (example_config ''CURIOSITY'') \<notin> set recognised_modes \<and>
   onr_metric
     (update_metric (example_config ''CURIOSITY'') (example_measures 2 half_seen_map 0)
       (reset_metric (example_config ''CURIOSITY'') (example_measures 3 half_seen_map 0) onr_init))
     = Fin 0 \<and>
   step_count
     (update_metric (example_config ''CURIOSITY'') (example_measures 2 half_seen_map 0)
       (reset_metric (example_config ''CURIOSITY'') (example_measures 3 half_seen_map 0) onr_init))
     = 2"
proof -
  let ?cfg = "example_config ''CURIOSITY''"
  let ?s = "reset_metric ?cfg (example_measures 3 half_seen_map 0) onr_init"
  have h: "MODE ?cfg \<notin> set recognised_modes"
    by (simp add: example_config_def recognised_modes_def)
  have c: "step_count ?s = 1"
    by (simp add: reset_metric_def update_metric_def example_config_def onr_init_def Let_def)
  show ?thesis
    using h c unrecognised_mode_no_shaping [OF h, of "example_measures 2 half_seen_map 0" ?s]
    by (simp add: fixed_terms_def example_measures_def)
qed

text \<open>
  C3 (the code at the failing input). The claim: a reset restores all state of an
  episode, the previous exploration ratio in particular. In exploration mode, a reset
  on an unseen map gives the metric 0 on a measure that has just been constructed,
  and -1/2 after an episode that ended with half of the map seen: the ratio of the
  earlier episode is the baseline of the new one. \<^verbatim>\<open>ObjectNavReward.reset_metric\<close>
  does not write the field (shown in distance mode, where the update does not write
  it either), and \<^verbatim>\<open>ExplorationMetrics.reset_metric\<close> keeps the stack of previous
  rooms.
\<close>

theorem reset_keeps_exploration_baseline:
  "onr_metric (reset_metric (example_config ''EXPLORATION'') (example_measures 3 unseen_map 0) onr_init) = Fin 0 \<and>
   onr_metric (reset_metric (example_config ''EXPLORATION'') (example_measures 3 unseen_map 0)
      (reset_metric (example_config ''EXPLORATION'') (example_measures 3 half_seen_map 0) onr_init))
     = Fin (- (1 / 2)) \<and>
   previous_exploration_ratio
     (reset_metric (example_config ''DISTANCE_TO_GOAL'') m s) = previous_exploration_ratio s \<and>
   previous_room_stack (em_reset_metric levels p e) = previous_room_stack e"
  by (simp add: reset_metric_def update_metric_def reward_exploration_def
      reward_distance_to_goal_def example_config_def
      example_measures_def onr_init_def exploration_ratio_examples Let_def fl_sub_def
      round64_0 round64_values em_reset_metric_def split: prod.splits)

lemma update_step_count: "step_count (update_metric cfg m s) = step_count s + 1"
  by (simp add: update_metric_def reward_expl_dt_when_visible_def reward_distance_to_goal_def
      reward_exploration_def Let_def split: prod.splits)

lemma hybrid_update_exploring:
  assumes "MODE cfg = hybrid" "\<not> goal_was_seen s" "\<not> crossing cfg m"
  shows "onr_metric (update_metric cfg m s) =
           with_fixed_terms cfg (step_count s + 1) m
             (exploration_term cfg (previous_exploration_ratio s)
               (exploration_ratio (top_down_map m)))"
    and "phase_of (update_metric cfg m s) = Exploring (Some (exploration_ratio (top_down_map m)))"
    and "previous_distance_to_target (update_metric cfg m s) = previous_distance_to_target s"
  using assms
  by (simp_all add: update_metric_def reward_expl_dt_when_visible_def reward_exploration_def
      hybrid_def with_fixed_terms_def exploration_term_def phase_of_def crossing_def
      fl_add_zero Let_def)

lemma hybrid_update_crossing:
  assumes "MODE cfg = hybrid" "\<not> goal_was_seen s" "crossing cfg m"
  shows "onr_metric (update_metric cfg m s) =
           with_fixed_terms cfg (step_count s + 1) m
             (fl_add (GOAL_SEEN_REWARD cfg) (fl_sub (distance_to_goal m) (distance_to_goal m)))"
    and "phase_of (update_metric cfg m s) = Seeking (distance_to_goal m)"
  using assms
  by (simp_all add: update_metric_def reward_expl_dt_when_visible_def reward_distance_to_goal_def
      hybrid_def with_fixed_terms_def phase_of_def crossing_def fl_add_zero Let_def)

lemma hybrid_update_seeking:
  assumes "MODE cfg = hybrid" "goal_was_seen s"
  shows "onr_metric (update_metric cfg m s) =
           with_fixed_terms cfg (step_count s + 1) m
             (fl_sub (previous_distance_to_target s) (distance_to_goal m))"
    and "phase_of (update_metric cfg m s) = Seeking (distance_to_goal m)"
  using assms
  by (simp_all add: update_metric_def reward_expl_dt_when_visible_def reward_distance_to_goal_def
      hybrid_def with_fixed_terms_def phase_of_def fl_add_zero Let_def)

lemma run_metrics_hybrid:
  assumes "MODE cfg = hybrid"
  shows "run_metrics cfg ms s = hybrid_spec cfg (phase_of s) (step_count s + 1) ms"
proof (induction ms arbitrary: s)
  case Nil
  show ?case by simp
next
  case (Cons m ms)
  note ih = Cons.IH [of "update_metric cfg m s", unfolded update_step_count]
  show ?case
  proof (cases "goal_was_seen s")
    case True
    then have p: "phase_of s = Seeking (previous_distance_to_target s)"
      by (simp add: phase_of_def)
    show ?thesis
      using ih hybrid_update_seeking [OF assms True, of m] by (simp add: p)
  next
    case False
    then have p: "phase_of s = Exploring (previous_exploration_ratio s)"
      by (simp add: phase_of_def)
    show ?thesis
    proof (cases "crossing cfg m")
      case True
      then show ?thesis
        using ih hybrid_update_crossing [OF assms False True] by (simp add: p crossing_def)
    next
      case c: False
      then show ?thesis
        using ih hybrid_update_exploring [OF assms False c] by (simp add: p crossing_def)
    qed
  qed
qed

lemma episode_metrics_hybrid:
  assumes "MODE cfg = hybrid"
  shows "episode_metrics cfg m0 ms s =
           hybrid_spec cfg (Exploring (previous_exploration_ratio s)) 1 (m0 # ms)"
proof -
  let ?s0 = "s\<lparr>onr_metric := Fin 0, step_count := 0, goal_was_seen := False,
               previous_distance_to_target := distance_to_goal m0\<rparr>"
  have "episode_metrics cfg m0 ms s = run_metrics cfg (m0 # ms) ?s0"
    by (simp add: episode_metrics_def reset_metric_def)
  also have "\<dots> = hybrid_spec cfg (phase_of ?s0) (step_count ?s0 + 1) (m0 # ms)"
    by (rule run_metrics_hybrid [OF assms])
  finally show ?thesis by (simp add: phase_of_def)
qed

lemma hybrid_update_flag:
  assumes "MODE cfg = hybrid"
  shows "goal_was_seen (update_metric cfg m s) = (goal_was_seen s \<or> crossing cfg m)"
  using assms
  by (simp add: update_metric_def reward_expl_dt_when_visible_def reward_distance_to_goal_def
      reward_exploration_def hybrid_def crossing_def Let_def)

lemma onr_run_Cons: "onr_run cfg (m # ms) s = onr_run cfg ms (update_metric cfg m s)"
  by (simp add: onr_run_def)

lemma hybrid_run_flag:
  assumes "MODE cfg = hybrid"
  shows "goal_was_seen (onr_run cfg ms s) = (goal_was_seen s \<or> list_ex (crossing cfg) ms)"
proof (induction ms arbitrary: s)
  case Nil
  show ?case by (simp add: onr_run_def)
next
  case (Cons m ms)
  show ?case
    unfolding onr_run_Cons Cons.IH hybrid_update_flag [OF assms] by auto
qed

lemma hybrid_run_exploring_baseline:
  assumes "MODE cfg = hybrid"
  shows "\<not> goal_was_seen s \<Longrightarrow> \<not> list_ex (crossing cfg) ms \<Longrightarrow>
         previous_distance_to_target (onr_run cfg ms s) = previous_distance_to_target s"
proof (induction ms arbitrary: s)
  case Nil
  show ?case by (simp add: onr_run_def)
next
  case (Cons m ms)
  from Cons.prems have c: "\<not> crossing cfg m" and r: "\<not> list_ex (crossing cfg) ms" by simp_all
  have f: "\<not> goal_was_seen (update_metric cfg m s)"
    using Cons.prems(1) c by (simp add: hybrid_update_flag [OF assms])
  show ?case
    unfolding onr_run_Cons Cons.IH [OF f r]
    using hybrid_update_exploring(3) [OF assms Cons.prems(1) c] .
qed

lemma reset_as_update:
  "reset_metric cfg m0 s =
     update_metric cfg m0
       (s\<lparr>onr_metric := Fin 0, step_count := 0, goal_was_seen := False,
          previous_distance_to_target := distance_to_goal m0\<rparr>)"
  by (simp add: reset_metric_def)

lemma episode_as_run:
  "episode cfg m0 ms s =
     onr_run cfg (m0 # ms)
       (s\<lparr>onr_metric := Fin 0, step_count := 0, goal_was_seen := False,
          previous_distance_to_target := distance_to_goal m0\<rparr>)"
  by (simp add: episode_def onr_run_Cons reset_as_update)

text \<open>
  C8 (amended). In the hybrid mode of \<^verbatim>\<open>ObjectNavReward\<close>, for every episode (a
  reset of the measure in any state, then any number of updates), the rewards that the
  measure exports are those of the two-phase machine of the specification started in
  its exploring phase, with the slack and success terms added at every step: the
  exploration term on every step before the goal visibility first exceeds the
  threshold, each against the ratio of the step before it; the goal-seen bonus and a
  distance term on a baseline reset to the current distance on the step where the
  visibility first exceeds the threshold; the previous distance minus the current one
  on every later step. The goal-seen flag is set at the end of the episode exactly
  when some step's visibility exceeded the threshold, and it stays set over any
  further updates; while it is unset the distance baseline is the distance at the
  reset. The first exploration term of the episode is taken against the exploration
  ratio that the measure holds when it is reset, if it holds one.
\<close>

theorem hybrid_mode_episode:
  assumes "MODE cfg = hybrid"
  shows "episode_metrics cfg m0 ms s =
           hybrid_spec cfg (Exploring (previous_exploration_ratio s)) 1 (m0 # ms) \<and>
         goal_was_seen (episode cfg m0 ms s) = list_ex (crossing cfg) (m0 # ms) \<and>
         (goal_was_seen (episode cfg m0 ms s) \<longrightarrow>
            goal_was_seen (onr_run cfg later (episode cfg m0 ms s))) \<and>
         (\<not> list_ex (crossing cfg) (m0 # ms) \<longrightarrow>
            previous_distance_to_target (episode cfg m0 ms s) = distance_to_goal m0)"
proof (intro conjI impI)
  show "episode_metrics cfg m0 ms s =
          hybrid_spec cfg (Exploring (previous_exploration_ratio s)) 1 (m0 # ms)"
    by (rule episode_metrics_hybrid [OF assms])
  show "goal_was_seen (episode cfg m0 ms s) = list_ex (crossing cfg) (m0 # ms)"
    unfolding episode_as_run hybrid_run_flag [OF assms] by simp
next
  assume "goal_was_seen (episode cfg m0 ms s)"
  then show "goal_was_seen (onr_run cfg later (episode cfg m0 ms s))"
    by (simp add: hybrid_run_flag [OF assms])
next
  assume n: "\<not> list_ex (crossing cfg) (m0 # ms)"
  show "previous_distance_to_target (episode cfg m0 ms s) = distance_to_goal m0"
    unfolding episode_as_run
    using hybrid_run_exploring_baseline [OF assms _ n,
        of "s\<lparr>onr_metric := Fin 0, step_count := 0, goal_was_seen := False,
               previous_distance_to_target := distance_to_goal m0\<rparr>"]
    by simp
qed

lemma quiet_fields:
  "goal_vis quiet = Fin 0" "success quiet = False"
  "exploration_ratio (top_down_map quiet) = Fin 0" "distance_to_goal quiet = Fin 3"
  by (simp_all add: quiet_def example_measures_def exploration_ratio_examples)

lemma quiet_step:
  "hybrid_spec (example_config hybrid) (Exploring (Some (Fin 0))) n (quiet # ms) =
     (if n > 20 then Fin (- (1 / 128)) else Fin 0) #
     hybrid_spec (example_config hybrid) (Exploring (Some (Fin 0))) (n + 1) ms"
  by (simp add: quiet_fields example_config_def with_fixed_terms_def exploration_term_def
      fl_sub_def round64_0 Let_def)

text \<open>
  C8 (as stated, refuted). The claim: on every step before the goal visibility first
  exceeds the threshold, the reward equals the exploration term. In an episode of
  twenty-one steps on which nothing changes and the goal is never in view, the
  exploration term of the last step is 0 and its reward is the slack reward, -1/128:
  the step count has passed 20.
\<close>

theorem hybrid_mode_counterexample:
  "\<not> crossing (example_config hybrid) quiet \<and>
   exploration_term (example_config hybrid) (Some (exploration_ratio (top_down_map quiet)))
     (exploration_ratio (top_down_map quiet)) = Fin 0 \<and>
   episode_metrics (example_config hybrid) quiet
     [quiet, quiet, quiet, quiet, quiet, quiet, quiet, quiet, quiet, quiet,
      quiet, quiet, quiet, quiet, quiet, quiet, quiet, quiet, quiet, quiet] onr_init =
     [Fin 0, Fin 0, Fin 0, Fin 0, Fin 0, Fin 0, Fin 0, Fin 0, Fin 0, Fin 0,
      Fin 0, Fin 0, Fin 0, Fin 0, Fin 0, Fin 0, Fin 0, Fin 0, Fin 0, Fin 0,
      Fin (- (1 / 128))]"
proof -
  have h: "MODE (example_config hybrid) = hybrid" by (simp add: example_config_def)
  have first: "hybrid_spec (example_config hybrid) (Exploring None) 1 (quiet # ms) =
      Fin 0 # hybrid_spec (example_config hybrid) (Exploring (Some (Fin 0))) 2 ms" for ms
    by (simp add: quiet_fields example_config_def with_fixed_terms_def exploration_term_def
        fl_sub_def round64_0 Let_def)
  have c: "\<not> crossing (example_config hybrid) quiet"
    by (simp add: crossing_def quiet_fields example_config_def)
  have t: "exploration_term (example_config hybrid) (Some (exploration_ratio (top_down_map quiet)))
     (exploration_ratio (top_down_map quiet)) = Fin 0"
    by (simp add: exploration_term_def quiet_fields example_config_def fl_sub_def round64_0)
  show ?thesis
    unfolding episode_metrics_hybrid [OF h]
    using c t by (simp add: onr_init_def first quiet_step del: hybrid_spec.simps(2,3))
qed

theorem hybrid_mode_episode_witness:
  "MODE (example_config hybrid) = hybrid \<and>
   episode_metrics (example_config hybrid) (example_measures 4 unseen_map (1 / 16)) hybrid_walk
     onr_init = [Fin 0, Fin (1 / 2), Fin 1, Fin 1] \<and>
   goal_was_seen (episode (example_config hybrid) (example_measures 4 unseen_map (1 / 16))
     hybrid_walk onr_init) \<and>
   \<not> list_ex (crossing (example_config hybrid)) [quiet, quiet] \<and>
   previous_distance_to_target (episode (example_config hybrid) quiet [quiet] onr_init) = Fin 3"
proof -
  let ?cfg = "example_config hybrid"
  let ?m0 = "example_measures 4 unseen_map (1 / 16)"
  have h: "MODE ?cfg = hybrid" by (simp add: example_config_def)
  note w = hybrid_mode_episode [OF h, of ?m0 hybrid_walk onr_init "[]"]
  note q = hybrid_mode_episode [OF h, of quiet "[quiet]" onr_init "[]"]
  have e: "hybrid_spec ?cfg (Exploring None) 1 (?m0 # hybrid_walk) =
      [Fin 0, Fin (1 / 2), Fin 1, Fin 1]"
    by (simp add: hybrid_walk_def example_measures_def example_config_def
        with_fixed_terms_def exploration_term_def exploration_ratio_examples fl_sub_def
        round64_0 round64_values Let_def)
  have x: "list_ex (crossing ?cfg) (?m0 # hybrid_walk)"
    by (simp add: hybrid_walk_def crossing_def example_measures_def example_config_def)
  have n: "\<not> list_ex (crossing ?cfg) [quiet, quiet]"
    by (simp add: crossing_def quiet_fields example_config_def)
  have r1: "episode_metrics ?cfg ?m0 hybrid_walk onr_init = [Fin 0, Fin (1 / 2), Fin 1, Fin 1]"
    using w e by (simp add: onr_init_def)
  have r2: "goal_was_seen (episode ?cfg ?m0 hybrid_walk onr_init)"
    using w x by simp
  have r3: "previous_distance_to_target (episode ?cfg quiet [quiet] onr_init) = Fin 3"
    using q n by (simp add: quiet_fields)
  show ?thesis using h r1 r2 n r3 by simp
qed

text \<open>
  C10 (amended). For every finite distance to the goal, the metric of
  \<^verbatim>\<open>DistanceToGoalReward\<close> equals the metric of \<^verbatim>\<open>ObjectNavSparseReward\<close>, the
  success reward on success and 0 otherwise, after an update from any state, after a
  reset, and after any non-empty run of updates: the previous distance is overwritten
  with the current one before the subtraction, so the difference is 0. For a distance
  that is infinite or not-a-number the difference, and with it the metric, is
  not-a-number.
\<close>

theorem d2g_reward_is_sparse_reward:
  "(is_finite (distance_to_goal m) \<longrightarrow>
      d2g_metric (d2g_update_metric cfg m s) = sparse_metric (sparse_update_metric cfg m t) \<and>
      d2g_metric (d2g_reset_metric cfg m s) = sparse_metric (sparse_reset_metric cfg m t) \<and>
      d2g_metric (d2g_update_metric cfg m s) = (if success m then SUCCESS_REWARD cfg else Fin 0) \<and>
      d2g_metric (d2g_run cfg (ms @ [m]) s) = sparse_metric (sparse_run cfg (ms @ [m]) t)) \<and>
   (\<not> is_finite (distance_to_goal m) \<longrightarrow>
      d2g_metric (d2g_update_metric cfg m s) = NaN \<and>
      d2g_metric (d2g_reset_metric cfg m s) = NaN) \<and>
   d2g_previous_distance_to_target (d2g_update_metric cfg m s) = distance_to_goal m"
proof (intro conjI impI)
  assume "is_finite (distance_to_goal m)"
  then obtain d where d: "distance_to_goal m = Fin d"
    by (cases "distance_to_goal m") simp_all
  show "d2g_metric (d2g_update_metric cfg m s) = sparse_metric (sparse_update_metric cfg m t)"
    by (simp add: d2g_update_metric_def sparse_update_metric_def d fl_sub_self fl_add_zero Let_def)
  show "d2g_metric (d2g_reset_metric cfg m s) = sparse_metric (sparse_reset_metric cfg m t)"
    by (simp add: d2g_reset_metric_def sparse_reset_metric_def d2g_update_metric_def
        sparse_update_metric_def d fl_sub_self fl_add_zero Let_def)
  show "d2g_metric (d2g_update_metric cfg m s) = (if success m then SUCCESS_REWARD cfg else Fin 0)"
    by (simp add: d2g_update_metric_def d fl_sub_self fl_add_zero Let_def)
  show "d2g_metric (d2g_run cfg (ms @ [m]) s) = sparse_metric (sparse_run cfg (ms @ [m]) t)"
    by (simp add: d2g_run_def sparse_run_def d2g_update_metric_def sparse_update_metric_def
        d fl_sub_self fl_add_zero Let_def)
next
  assume n: "\<not> is_finite (distance_to_goal m)"
  show "d2g_metric (d2g_update_metric cfg m s) = NaN"
    by (simp add: d2g_update_metric_def fl_sub_not_finite [OF n] Let_def)
  show "d2g_metric (d2g_reset_metric cfg m s) = NaN"
    by (simp add: d2g_reset_metric_def d2g_update_metric_def fl_sub_not_finite [OF n] Let_def)
next
  show "d2g_previous_distance_to_target (d2g_update_metric cfg m s) = distance_to_goal m"
    by (simp add: d2g_update_metric_def Let_def)
qed

text \<open>
  C10 (as stated, refuted). The claim: the two metrics are equal for every value of
  the distance. On a step where no path leads to the goal the distance is infinite;
  the reset of \<^verbatim>\<open>DistanceToGoalReward\<close> then gives not-a-number, and the reset of
  \<^verbatim>\<open>ObjectNavSparseReward\<close> gives 0.
\<close>

theorem d2g_reward_counterexample:
  "d2g_metric (d2g_reset_metric (example_config hybrid) unreachable_measures d2g_init) = NaN \<and>
   sparse_metric
     (sparse_reset_metric (example_config hybrid) unreachable_measures \<lparr>sparse_metric = Fin 0\<rparr>)
     = Fin 0"
  by (simp add: d2g_reset_metric_def d2g_update_metric_def sparse_reset_metric_def
      sparse_update_metric_def unreachable_measures_def fl_sub_def Let_def)

theorem d2g_reward_is_sparse_reward_witness:
  "is_finite (distance_to_goal quiet) \<and> \<not> is_finite (distance_to_goal unreachable_measures) \<and>
   d2g_metric (d2g_reset_metric (example_config hybrid) quiet d2g_init) = Fin 0 \<and>
   sparse_metric (sparse_reset_metric (example_config hybrid) quiet \<lparr>sparse_metric = Fin 0\<rparr>)
     = Fin 0 \<and>
   d2g_metric (d2g_update_metric (example_config hybrid) unreachable_measures d2g_init) = NaN"
proof -
  have f: "is_finite (distance_to_goal quiet)" by (simp add: quiet_fields)
  have n: "\<not> is_finite (distance_to_goal unreachable_measures)"
    by (simp add: unreachable_measures_def)
  note a = d2g_reward_is_sparse_reward [of quiet "example_config hybrid" d2g_init
      "\<lparr>sparse_metric = Fin 0\<rparr>" "[]"]
  note b = d2g_reward_is_sparse_reward [of unreachable_measures "example_config hybrid" d2g_init
      "\<lparr>sparse_metric = Fin 0\<rparr>" "[]"]
  have s: "sparse_metric (sparse_reset_metric (example_config hybrid) quiet \<lparr>sparse_metric = Fin 0\<rparr>)
     = Fin 0"
    by (simp add: sparse_reset_metric_def sparse_update_metric_def quiet_fields Let_def)
  have r1: "d2g_metric (d2g_reset_metric (example_config hybrid) quiet d2g_init) = Fin 0"
    using a f s by simp
  have r2: "d2g_metric (d2g_update_metric (example_config hybrid) unreachable_measures d2g_init) = NaN"
    using b n by simp
  show ?thesis using f n r1 s r2 by simp
qed

section \<open>Panoramic sweeps and room peeking\<close>

lemma em_visit_turn_fields:
  "total_left_turns (fst (em_visit p s)) = total_left_turns s"
  "total_right_turns (fst (em_visit p s)) = total_right_turns s"
  "panoramic_turns (fst (em_visit p s)) = panoramic_turns s"
  "panoramic_turns_strict (fst (em_visit p s)) = panoramic_turns_strict s"
  "prev_sight_coverage (fst (em_visit p s)) = prev_sight_coverage s"
  by (simp_all add: em_visit_def split: prod.splits)

lemma em_count_revisits_turn_fields:
  "total_left_turns (em_count_revisits c s) = total_left_turns s"
  "total_right_turns (em_count_revisits c s) = total_right_turns s"
  "panoramic_turns (em_count_revisits c s) = panoramic_turns s"
  "panoramic_turns_strict (em_count_revisits c s) = panoramic_turns_strict s"
  "prev_sight_coverage (em_count_revisits c s) = prev_sight_coverage s"
  by (simp_all add: em_count_revisits_def split: option.splits)

lemma em_push_room_turn_fields:
  "total_left_turns (em_push_room c s) = total_left_turns s"
  "total_right_turns (em_push_room c s) = total_right_turns s"
  "panoramic_turns (em_push_room c s) = panoramic_turns s"
  "panoramic_turns_strict (em_push_room c s) = panoramic_turns_strict s"
  "prev_sight_coverage (em_push_room c s) = prev_sight_coverage s"
  by (simp_all add: em_push_room_def Let_def split: option.splits)

lemma em_sight_turn_fields:
  "total_left_turns (em_sight t s) = total_left_turns s"
  "total_right_turns (em_sight t s) = total_right_turns s"
  "panoramic_turns (em_sight t s) = panoramic_turns s"
  "panoramic_turns_strict (em_sight t s) = panoramic_turns_strict s"
  "prev_sight_coverage (em_sight t s) = get_visible_area t"
  "delta_sight_coverage (em_sight t s) = fl_sub (get_visible_area t) (prev_sight_coverage s)"
  by (simp_all add: em_sight_def Let_def)

lemma em_action_turn_fields:
  "total_left_turns (em_action a s) =
     (if \<not> str_in ''TURN'' a then 0
      else if a = ''TURN_LEFT'' then total_left_turns s + 1 else total_left_turns s)"
  "total_right_turns (em_action a s) =
     (if \<not> str_in ''TURN'' a then 0
      else if a = ''TURN_LEFT'' then total_right_turns s
      else if a = ''TURN_RIGHT'' then total_right_turns s + 1 else total_right_turns s)"
  "delta_sight_coverage (em_action a s) =
     (if \<not> str_in ''TURN'' a then Fin 0 else delta_sight_coverage s)"
  "panoramic_turns (em_action a s) = panoramic_turns s"
  "panoramic_turns_strict (em_action a s) = panoramic_turns_strict s"
  "prev_sight_coverage (em_action a s) = prev_sight_coverage s"
  by (simp_all add: em_action_def Let_def)

lemma em_sweeps_turn_fields:
  "total_left_turns (em_sweeps s) = total_left_turns s"
  "total_right_turns (em_sweeps s) = total_right_turns s"
  "delta_sight_coverage (em_sweeps s) = delta_sight_coverage s"
  "prev_sight_coverage (em_sweeps s) = prev_sight_coverage s"
  "panoramic_turns (em_sweeps s) =
     panoramic_turns s + (if sweep_condition s sweep_threshold then 1 else 0)"
  "panoramic_turns_strict (em_sweeps s) =
     panoramic_turns_strict s + (if sweep_condition s sweep_threshold_strict then 1 else 0)"
  by (simp_all add: em_sweeps_def sweep_condition_def Let_def)

lemma em_export_turn_fields:
  "total_left_turns (em_export s) = total_left_turns s"
  "total_right_turns (em_export s) = total_right_turns s"
  "delta_sight_coverage (em_export s) = delta_sight_coverage s"
  "prev_sight_coverage (em_export s) = prev_sight_coverage s"
  "panoramic_turns (em_export s) = panoramic_turns s"
  "panoramic_turns_strict (em_export s) = panoramic_turns_strict s"
  by (simp_all add: em_export_def Let_def)

lemmas em_turn_fields =
  em_visit_turn_fields em_count_revisits_turn_fields em_push_room_turn_fields
  em_sight_turn_fields em_action_turn_fields em_sweeps_turn_fields em_export_turn_fields

lemma em_update_as_blocks:
  "em_update_metric t p a s =
     em_export (em_sweeps (em_action a (em_sight t
       (em_push_room (snd (em_visit p s)) (em_count_revisits (snd (em_visit p s)) (fst (em_visit p s)))))))"
  by (simp add: em_update_metric_def split: prod.splits)

lemma em_update_turns:
  "total_left_turns (em_update_metric t p a s) =
     (if \<not> str_in ''TURN'' a then 0
      else if a = ''TURN_LEFT'' then total_left_turns s + 1 else total_left_turns s)"
  "total_right_turns (em_update_metric t p a s) =
     (if \<not> str_in ''TURN'' a then 0
      else if a = ''TURN_LEFT'' then total_right_turns s
      else if a = ''TURN_RIGHT'' then total_right_turns s + 1 else total_right_turns s)"
  "delta_sight_coverage (em_update_metric t p a s) =
     (if \<not> str_in ''TURN'' a then Fin 0
      else fl_sub (get_visible_area t) (prev_sight_coverage s))"
  "prev_sight_coverage (em_update_metric t p a s) = get_visible_area t"
  unfolding em_update_as_blocks by (simp_all only: em_turn_fields)

lemma sweep_condition_cong:
  "total_left_turns s = total_left_turns s' \<Longrightarrow> total_right_turns s = total_right_turns s' \<Longrightarrow>
   delta_sight_coverage s = delta_sight_coverage s' \<Longrightarrow>
   sweep_condition s th = sweep_condition s' th"
  by (simp add: sweep_condition_def)

lemma em_update_sweeps:
  "panoramic_turns (em_update_metric t p a s) =
     panoramic_turns s + (if sweep_condition (em_update_metric t p a s) sweep_threshold then 1 else 0)"
  "panoramic_turns_strict (em_update_metric t p a s) =
     panoramic_turns_strict s + (if sweep_condition (em_update_metric t p a s) sweep_threshold_strict then 1 else 0)"
proof -
  let ?s4 = "em_action a (em_sight t
       (em_push_room (snd (em_visit p s)) (em_count_revisits (snd (em_visit p s)) (fst (em_visit p s)))))"
  have c: "sweep_condition (em_update_metric t p a s) th = sweep_condition ?s4 th" for th
    unfolding em_update_as_blocks
    by (rule sweep_condition_cong) (simp_all only: em_turn_fields)
  show "panoramic_turns (em_update_metric t p a s) =
     panoramic_turns s + (if sweep_condition (em_update_metric t p a s) sweep_threshold then 1 else 0)"
    unfolding c unfolding em_update_as_blocks by (simp only: em_turn_fields)
  show "panoramic_turns_strict (em_update_metric t p a s) =
     panoramic_turns_strict s + (if sweep_condition (em_update_metric t p a s) sweep_threshold_strict then 1 else 0)"
    unfolding c unfolding em_update_as_blocks by (simp only: em_turn_fields)
qed

lemma em_step_turn_bounds:
  assumes "0 \<le> total_left_turns s" "0 \<le> total_right_turns s"
  shows "0 \<le> total_left_turns (em_step_update s x) \<and>
         0 \<le> total_right_turns (em_step_update s x) \<and>
         total_left_turns (em_step_update s x) + total_right_turns (em_step_update s x)
           \<le> total_left_turns s + total_right_turns s + 1"
  using assms by (simp add: em_step_update_def em_update_turns)

lemma em_step_no_sweep:
  assumes "total_left_turns (em_step_update s x) + total_right_turns (em_step_update s x) < 8"
  shows "panoramic_turns (em_step_update s x) = panoramic_turns s \<and>
         panoramic_turns_strict (em_step_update s x) = panoramic_turns_strict s"
proof -
  have "\<not> sweep_condition (em_step_update s x) th" for th
    using assms by (simp add: sweep_condition_def)
  then show ?thesis
    by (simp add: em_step_update_def em_update_sweeps)
qed

lemma em_run_Cons: "em_run (x # xs) s = em_run xs (em_step_update s x)"
  by (simp add: em_run_def)

lemma em_run_append: "em_run (xs @ ys) s = em_run ys (em_run xs s)"
  by (simp add: em_run_def)

lemma em_run_no_sweep:
  assumes "0 \<le> total_left_turns s" "0 \<le> total_right_turns s"
    "total_left_turns s + total_right_turns s + int (length xs) < 8"
  shows "panoramic_turns (em_run xs s) = panoramic_turns s \<and>
         panoramic_turns_strict (em_run xs s) = panoramic_turns_strict s"
  using assms
proof (induction xs arbitrary: s)
  case Nil
  show ?case by (simp add: em_run_def)
next
  case (Cons x xs)
  let ?s = "em_step_update s x"
  note b = em_step_turn_bounds [OF Cons.prems(1,2), of x]
  from b Cons.prems(3) have small: "total_left_turns ?s + total_right_turns ?s < 8" by simp
  from b Cons.prems(3)
  have rest: "total_left_turns ?s + total_right_turns ?s + int (length xs) < 8" by simp
  from b have l: "0 \<le> total_left_turns ?s" and r: "0 \<le> total_right_turns ?s" by simp_all
  show ?case
    unfolding em_run_Cons using Cons.IH [OF l r rest] em_step_no_sweep [OF small] by simp
qed

lemma non_turn_resets:
  assumes "\<not> str_in ''TURN'' (step_action y)"
  shows "total_left_turns (em_step_update s y) = 0 \<and> total_right_turns (em_step_update s y) = 0 \<and>
         delta_sight_coverage (em_step_update s y) = Fin 0 \<and>
         panoramic_turns (em_step_update s y) = panoramic_turns s \<and>
         panoramic_turns_strict (em_step_update s y) = panoramic_turns_strict s"
proof -
  have z: "total_left_turns (em_step_update s y) = 0" "total_right_turns (em_step_update s y) = 0"
    "delta_sight_coverage (em_step_update s y) = Fin 0"
    using assms by (simp_all add: em_step_update_def em_update_turns)
  then have "total_left_turns (em_step_update s y) + total_right_turns (em_step_update s y) < 8"
    by simp
  from em_step_no_sweep [OF this] z show ?thesis by simp
qed

lemma interrupted_sweep:
  assumes start: "total_left_turns s = 0" "total_right_turns s = 0"
    and pre: "length pre < 8" and post: "length post < 8"
    and y: "\<not> str_in ''TURN'' (step_action y)"
  shows "total_left_turns (em_run (pre @ [y]) s) = 0 \<and>
         total_right_turns (em_run (pre @ [y]) s) = 0 \<and>
         panoramic_turns (em_run (pre @ [y] @ post) s) = panoramic_turns s \<and>
         panoramic_turns_strict (em_run (pre @ [y] @ post) s) = panoramic_turns_strict s"
proof -
  let ?s1 = "em_run pre s"
  let ?s2 = "em_step_update ?s1 y"
  have p1: "panoramic_turns ?s1 = panoramic_turns s \<and>
            panoramic_turns_strict ?s1 = panoramic_turns_strict s"
    using em_run_no_sweep [of s pre] start pre by simp
  note r = non_turn_resets [OF y, of ?s1]
  have p3: "panoramic_turns (em_run post ?s2) = panoramic_turns ?s2 \<and>
            panoramic_turns_strict (em_run post ?s2) = panoramic_turns_strict ?s2"
    using em_run_no_sweep [of ?s2 post] r post by simp
  have e1: "em_run (pre @ [y]) s = ?s2" by (simp add: em_run_def)
  have e2: "em_run (pre @ [y] @ post) s = em_run post ?s2" by (simp add: em_run_def)
  show ?thesis unfolding e1 e2 using p1 r p3 by simp
qed

lemma left_turn_step:
  "total_left_turns (em_step_update s (left_turn t p)) = total_left_turns s + 1"
  "total_right_turns (em_step_update s (left_turn t p)) = total_right_turns s"
  "prev_sight_coverage (em_step_update s (left_turn t p)) = get_visible_area t"
  by (simp_all add: em_step_update_def left_turn_def em_update_turns)

lemma right_turn_step:
  "total_left_turns (em_step_update s (right_turn t p)) = total_left_turns s"
  "total_right_turns (em_step_update s (right_turn t p)) = total_right_turns s + 1"
  "prev_sight_coverage (em_step_update s (right_turn t p)) = get_visible_area t"
  "delta_sight_coverage (em_step_update s (right_turn t p)) =
     fl_sub (get_visible_area t) (prev_sight_coverage s)"
  by (simp_all add: em_step_update_def right_turn_def em_update_turns)

lemma full_sweep:
  assumes start: "total_left_turns s = 0" "total_right_turns s = 0"
  shows "panoramic_turns
           (em_run [left_turn t1 p1, left_turn t2 p2, left_turn t3 p3, left_turn t4 p4,
                    right_turn t5 p5, right_turn t6 p6, right_turn t7 p7, right_turn t8 p8] s) =
         panoramic_turns s +
           (if fl_gt (fl_sub (get_visible_area t8) (get_visible_area t7)) sweep_threshold
            then 1 else 0) \<and>
         panoramic_turns_strict
           (em_run [left_turn t1 p1, left_turn t2 p2, left_turn t3 p3, left_turn t4 p4,
                    right_turn t5 p5, right_turn t6 p6, right_turn t7 p7, right_turn t8 p8] s) =
         panoramic_turns_strict s +
           (if fl_gt (fl_sub (get_visible_area t8) (get_visible_area t7)) sweep_threshold_strict
            then 1 else 0)"
proof -
  let ?pre = "[left_turn t1 p1, left_turn t2 p2, left_turn t3 p3, left_turn t4 p4,
              right_turn t5 p5, right_turn t6 p6, right_turn t7 p7]"
  let ?s7 = "em_run ?pre s"
  let ?s8 = "em_step_update ?s7 (right_turn t8 p8)"
  have p7: "panoramic_turns ?s7 = panoramic_turns s \<and>
            panoramic_turns_strict ?s7 = panoramic_turns_strict s"
    using em_run_no_sweep [of s ?pre] start by simp
  have l7: "total_left_turns ?s7 = 4" and r7: "total_right_turns ?s7 = 3"
    and v7: "prev_sight_coverage ?s7 = get_visible_area t7"
    using start by (simp_all add: em_run_def left_turn_step right_turn_step)
  have c: "sweep_condition ?s8 th =
      fl_gt (fl_sub (get_visible_area t8) (get_visible_area t7)) th" for th
    by (simp add: sweep_condition_def right_turn_step l7 r7 v7)
  have e: "em_run (?pre @ [right_turn t8 p8]) s = ?s8" by (simp only: em_run_append em_run_Cons) (simp add: em_run_def)
  have "panoramic_turns ?s8 = panoramic_turns ?s7 +
      (if sweep_condition ?s8 sweep_threshold then 1 else 0)"
    "panoramic_turns_strict ?s8 = panoramic_turns_strict ?s7 +
      (if sweep_condition ?s8 sweep_threshold_strict then 1 else 0)"
    by (simp_all only: em_step_update_def em_update_sweeps)
  with p7 c e show ?thesis by simp
qed

text \<open>
  C7 (amended). From a state whose two turn counts are 0, four left turns followed by
  four right turns raise each sweep count by exactly one when the change of the
  visible area on the last step, as the floats give it, exceeds the threshold of that
  count (the float 0.015 for \<^verbatim>\<open>panoramic_turns\<close>, the float 0.01 for
  \<^verbatim>\<open>panoramic_turns_strict\<close>), and by nothing otherwise. At every update a sweep
  count rises by one exactly when, after the action is counted, there are at least 3
  left turns, at least 3 right turns, at least 8 turns in all, and the change of the
  visible area since the last step exceeds the threshold. An action that is not a
  turn, inserted into a sequence of eight steps after at least one of them and before
  the eighth, sets both turn counts to 0, and the sweep counts after the whole
  sequence are those before it.
\<close>

theorem panoramic_sweep:
  "(total_left_turns s = 0 \<and> total_right_turns s = 0 \<longrightarrow>
      panoramic_turns
        (em_run [left_turn t1 p1, left_turn t2 p2, left_turn t3 p3, left_turn t4 p4,
                 right_turn t5 p5, right_turn t6 p6, right_turn t7 p7, right_turn t8 p8] s) =
      panoramic_turns s +
        (if fl_gt (fl_sub (get_visible_area t8) (get_visible_area t7)) sweep_threshold
         then 1 else 0) \<and>
      panoramic_turns_strict
        (em_run [left_turn t1 p1, left_turn t2 p2, left_turn t3 p3, left_turn t4 p4,
                 right_turn t5 p5, right_turn t6 p6, right_turn t7 p7, right_turn t8 p8] s) =
      panoramic_turns_strict s +
        (if fl_gt (fl_sub (get_visible_area t8) (get_visible_area t7)) sweep_threshold_strict
         then 1 else 0)) \<and>
   panoramic_turns (em_update_metric t p a s) =
     panoramic_turns s +
       (if sweep_condition (em_update_metric t p a s) sweep_threshold then 1 else 0) \<and>
   panoramic_turns_strict (em_update_metric t p a s) =
     panoramic_turns_strict s +
       (if sweep_condition (em_update_metric t p a s) sweep_threshold_strict then 1 else 0) \<and>
   delta_sight_coverage (em_update_metric t p a s) =
     (if \<not> str_in ''TURN'' a then Fin 0
      else fl_sub (get_visible_area t) (prev_sight_coverage s)) \<and>
   (total_left_turns s = 0 \<and> total_right_turns s = 0 \<and>
    pre \<noteq> [] \<and> post \<noteq> [] \<and> length pre + length post = 8 \<and>
    \<not> str_in ''TURN'' (step_action y) \<longrightarrow>
      total_left_turns (em_run (pre @ [y]) s) = 0 \<and>
      total_right_turns (em_run (pre @ [y]) s) = 0 \<and>
      panoramic_turns (em_run (pre @ [y] @ post) s) = panoramic_turns s \<and>
      panoramic_turns_strict (em_run (pre @ [y] @ post) s) = panoramic_turns_strict s)"
proof (intro conjI impI)
  assume "total_left_turns s = 0 \<and> total_right_turns s = 0"
  then have start: "total_left_turns s = 0" "total_right_turns s = 0" by simp_all
  note f = full_sweep [OF start, of t1 p1 t2 p2 t3 p3 t4 p4 t5 p5 t6 p6 t7 p7 t8 p8]
  from f show "panoramic_turns
        (em_run [left_turn t1 p1, left_turn t2 p2, left_turn t3 p3, left_turn t4 p4,
                 right_turn t5 p5, right_turn t6 p6, right_turn t7 p7, right_turn t8 p8] s) =
      panoramic_turns s +
        (if fl_gt (fl_sub (get_visible_area t8) (get_visible_area t7)) sweep_threshold
         then 1 else 0)" by (rule conjunct1)
  from f show "panoramic_turns_strict
        (em_run [left_turn t1 p1, left_turn t2 p2, left_turn t3 p3, left_turn t4 p4,
                 right_turn t5 p5, right_turn t6 p6, right_turn t7 p7, right_turn t8 p8] s) =
      panoramic_turns_strict s +
        (if fl_gt (fl_sub (get_visible_area t8) (get_visible_area t7)) sweep_threshold_strict
         then 1 else 0)" by (rule conjunct2)
next
  show "panoramic_turns (em_update_metric t p a s) =
     panoramic_turns s +
       (if sweep_condition (em_update_metric t p a s) sweep_threshold then 1 else 0)"
    by (rule em_update_sweeps(1))
  show "panoramic_turns_strict (em_update_metric t p a s) =
     panoramic_turns_strict s +
       (if sweep_condition (em_update_metric t p a s) sweep_threshold_strict then 1 else 0)"
    by (rule em_update_sweeps(2))
  show "delta_sight_coverage (em_update_metric t p a s) =
     (if \<not> str_in ''TURN'' a then Fin 0
      else fl_sub (get_visible_area t) (prev_sight_coverage s))"
    by (rule em_update_turns(3))
next
  assume a: "total_left_turns s = 0 \<and> total_right_turns s = 0 \<and>
    pre \<noteq> [] \<and> post \<noteq> [] \<and> length pre + length post = 8 \<and>
    \<not> str_in ''TURN'' (step_action y)"
  then have start: "total_left_turns s = 0" "total_right_turns s = 0"
    and y: "\<not> str_in ''TURN'' (step_action y)" by simp_all
  from a have "length pre > 0" "length post > 0" "length pre + length post = 8" by simp_all
  then have pre: "length pre < 8" and post: "length post < 8" by linarith+
  note i = interrupted_sweep [OF start pre post y]
  from i show "total_left_turns (em_run (pre @ [y]) s) = 0" by simp
  from i show "total_right_turns (em_run (pre @ [y]) s) = 0" by simp
  from i show "panoramic_turns (em_run (pre @ [y] @ post) s) = panoramic_turns s" by simp
  from i show "panoramic_turns_strict (em_run (pre @ [y] @ post) s) = panoramic_turns_strict s"
    by simp
qed

lemma dd_get_count_revisit:
  "dd_get (count_revisit m r) r' =
     (if r' = r then (if dd_get m r = 0 then 2 else dd_get m r + 1) else dd_get m r')"
  by (simp add: count_revisit_def dd_get_incr Let_def)

lemma em_revisit_fields:
  "room_revisitation_map (em_push_room c s) = room_revisitation_map s"
  "room_revisitation_map_strict (em_push_room c s) = room_revisitation_map_strict s"
  "room_revisitation_map (em_sight t s) = room_revisitation_map s"
  "room_revisitation_map_strict (em_sight t s) = room_revisitation_map_strict s"
  "room_revisitation_map (em_action a s) = room_revisitation_map s"
  "room_revisitation_map_strict (em_action a s) = room_revisitation_map_strict s"
  "room_revisitation_map (em_sweeps s) = room_revisitation_map s"
  "room_revisitation_map_strict (em_sweeps s) = room_revisitation_map_strict s"
  "room_revisitation_map (em_export s) = room_revisitation_map s"
  "room_revisitation_map_strict (em_export s) = room_revisitation_map_strict s"
  "room_revisitation_map (fst (em_visit p s)) = room_revisitation_map s"
  "room_revisitation_map_strict (fst (em_visit p s)) = room_revisitation_map_strict s"
  by (simp_all add: em_push_room_def em_sight_def em_action_def em_sweeps_def em_export_def
      em_visit_def Let_def split: option.splits prod.splits)

lemma em_update_revisits:
  "dd_get (room_revisitation_map (em_update_metric t p a s)) r =
     revisits (dd_get (room_revisitation_map s) r) (em_peek p s r)"
  "dd_get (room_revisitation_map_strict (em_update_metric t p a s)) r =
     revisits (dd_get (room_revisitation_map_strict s) r) (em_peek_strict p s r)"
  unfolding em_update_as_blocks
  by (auto simp: em_revisit_fields em_count_revisits_def revisits_def em_peek_def
      em_peek_strict_def dd_get_count_revisit split: option.splits)

lemma peek_count_nonneg: "0 \<le> peek_count r xs s"
  by (induction xs arbitrary: s) auto

lemma peek_count_strict_nonneg: "0 \<le> peek_count_strict r xs s"
  by (induction xs arbitrary: s) auto

lemma revisits_run:
  "0 \<le> dd_get (room_revisitation_map s) r \<Longrightarrow>
   dd_get (room_revisitation_map (em_run xs s)) r =
     (let c = dd_get (room_revisitation_map s) r; n = peek_count r xs s
      in if n = 0 then c else if c = 0 then n + 1 else c + n)"
proof (induction xs arbitrary: s)
  case Nil
  show ?case by (simp add: em_run_def)
next
  case (Cons x xs)
  let ?s = "em_step_update s x"
  have c': "dd_get (room_revisitation_map ?s) r =
      revisits (dd_get (room_revisitation_map s) r) (em_peek (step_position x) s r)"
    by (simp add: em_step_update_def em_update_revisits)
  with Cons.prems have nn: "0 \<le> dd_get (room_revisitation_map ?s) r"
    by (simp add: revisits_def)
  show ?case
    unfolding em_run_Cons Cons.IH [OF nn] c'
    using Cons.prems peek_count_nonneg [of r xs ?s]
    by (auto simp: revisits_def Let_def)
qed

lemma revisits_strict_run:
  "0 \<le> dd_get (room_revisitation_map_strict s) r \<Longrightarrow>
   dd_get (room_revisitation_map_strict (em_run xs s)) r =
     (let c = dd_get (room_revisitation_map_strict s) r; n = peek_count_strict r xs s
      in if n = 0 then c else if c = 0 then n + 1 else c + n)"
proof (induction xs arbitrary: s)
  case Nil
  show ?case by (simp add: em_run_def)
next
  case (Cons x xs)
  let ?s = "em_step_update s x"
  have c': "dd_get (room_revisitation_map_strict ?s) r =
      revisits (dd_get (room_revisitation_map_strict s) r) (em_peek_strict (step_position x) s r)"
    by (simp add: em_step_update_def em_update_revisits)
  with Cons.prems have nn: "0 \<le> dd_get (room_revisitation_map_strict ?s) r"
    by (simp add: revisits_def)
  show ?case
    unfolding em_run_Cons Cons.IH [OF nn] c'
    using Cons.prems peek_count_strict_nonneg [of r xs ?s]
    by (auto simp: revisits_def Let_def)
qed

text \<open>
  C9. At every update of \<^verbatim>\<open>ExplorationMetrics\<close> and for every room, the
  revisitation count of the room goes from 0 to 2 when a peek is detected for the room
  and the count is 0, rises by one when a peek is detected and the count is not 0, and
  is unchanged when no peek is detected for the room. So, along any run of updates
  from a state where the count of a room is 0, the count is 0 as long as no peek was
  detected for the room, and the number of detections plus one afterwards. The same
  holds of the strict count with the strict detection.
\<close>

theorem first_peek_counts_twice:
  "dd_get (room_revisitation_map (em_update_metric t p a s)) r =
     revisits (dd_get (room_revisitation_map s) r) (em_peek p s r) \<and>
   dd_get (room_revisitation_map_strict (em_update_metric t p a s)) r =
     revisits (dd_get (room_revisitation_map_strict s) r) (em_peek_strict p s r) \<and>
   (dd_get (room_revisitation_map s) r = 0 \<longrightarrow>
      dd_get (room_revisitation_map (em_run xs s)) r =
        (if peek_count r xs s = 0 then 0 else peek_count r xs s + 1)) \<and>
   (dd_get (room_revisitation_map_strict s) r = 0 \<longrightarrow>
      dd_get (room_revisitation_map_strict (em_run xs s)) r =
        (if peek_count_strict r xs s = 0 then 0 else peek_count_strict r xs s + 1))"
proof (intro conjI impI)
  show "dd_get (room_revisitation_map (em_update_metric t p a s)) r =
     revisits (dd_get (room_revisitation_map s) r) (em_peek p s r)"
    by (rule em_update_revisits(1))
  show "dd_get (room_revisitation_map_strict (em_update_metric t p a s)) r =
     revisits (dd_get (room_revisitation_map_strict s) r) (em_peek_strict p s r)"
    by (rule em_update_revisits(2))
next
  assume z: "dd_get (room_revisitation_map s) r = 0"
  then have "0 \<le> dd_get (room_revisitation_map s) r" by simp
  from revisits_run [OF this, of xs] z
  show "dd_get (room_revisitation_map (em_run xs s)) r =
        (if peek_count r xs s = 0 then 0 else peek_count r xs s + 1)"
    by (simp add: Let_def)
next
  assume z: "dd_get (room_revisitation_map_strict s) r = 0"
  then have "0 \<le> dd_get (room_revisitation_map_strict s) r" by simp
  from revisits_strict_run [OF this, of xs] z
  show "dd_get (room_revisitation_map_strict (em_run xs s)) r =
        (if peek_count_strict r xs s = 0 then 0 else peek_count_strict r xs s + 1)"
    by (simp add: Let_def)
qed

lemma em_blocks_room_fields:
  "em_room_aabbs (em_export s) = em_room_aabbs s"
  "em_room_visitation_map (em_export s) = em_room_visitation_map s"
  "previous_room_stack (em_export s) = previous_room_stack s"
  "steps_between_rooms (em_export s) = steps_between_rooms s"
  "em_room_aabbs (em_sweeps s) = em_room_aabbs s"
  "em_room_visitation_map (em_sweeps s) = em_room_visitation_map s"
  "previous_room_stack (em_sweeps s) = previous_room_stack s"
  "steps_between_rooms (em_sweeps s) = steps_between_rooms s"
  "em_room_aabbs (em_action a s) = em_room_aabbs s"
  "em_room_visitation_map (em_action a s) = em_room_visitation_map s"
  "previous_room_stack (em_action a s) = previous_room_stack s"
  "steps_between_rooms (em_action a s) = steps_between_rooms s"
  "em_room_aabbs (em_sight t s) = em_room_aabbs s"
  "em_room_visitation_map (em_sight t s) = em_room_visitation_map s"
  "previous_room_stack (em_sight t s) = previous_room_stack s"
  "steps_between_rooms (em_sight t s) = steps_between_rooms s"
  by (simp_all add: em_export_def em_sweeps_def em_action_def em_sight_def Let_def)

lemma em_push_room_fields:
  "em_room_aabbs (em_push_room c s) = em_room_aabbs s"
  "em_room_visitation_map (em_push_room c s) = em_room_visitation_map s"
  "previous_room_stack (em_push_room c s) =
     (if push_room c (previous_room_stack s) then previous_room_stack s @ [the c]
      else previous_room_stack s)"
  "steps_between_rooms (em_push_room c s) =
     (if push_room c (previous_room_stack s) then 0 else steps_between_rooms s) + 1"
  by (simp_all add: em_push_room_def push_room_def Let_def split: option.splits)

lemma em_count_revisits_fields:
  "em_room_aabbs (em_count_revisits c s) = em_room_aabbs s"
  "em_room_visitation_map (em_count_revisits c s) = em_room_visitation_map s"
  "previous_room_stack (em_count_revisits c s) = previous_room_stack s"
  "steps_between_rooms (em_count_revisits c s) = steps_between_rooms s"
  by (simp_all add: em_count_revisits_def split: option.splits)

lemma em_visit_fields:
  "em_room_aabbs (fst (em_visit p s)) = em_room_aabbs s"
  "em_room_visitation_map (fst (em_visit p s)) =
     fst (em_visit_rooms p (em_room_aabbs s) (em_room_visitation_map s, None))"
  "previous_room_stack (fst (em_visit p s)) = previous_room_stack s"
  "steps_between_rooms (fst (em_visit p s)) = steps_between_rooms s"
  "snd (em_visit p s) = snd (em_visit_rooms p (em_room_aabbs s) (em_room_visitation_map s, None))"
  by (simp_all add: em_visit_def split: prod.splits)

lemma em_step_rooms:
  "em_room_aabbs (em_step_update s x) = em_room_aabbs s"
  "em_room_visitation_map (em_step_update s x) =
     fst (em_visit_rooms (step_position x) (em_room_aabbs s) (em_room_visitation_map s, None))"
  "previous_room_stack (em_step_update s x) =
     (let c = snd (em_visit_rooms (step_position x) (em_room_aabbs s) (em_room_visitation_map s, None))
      in if push_room c (previous_room_stack s) then previous_room_stack s @ [the c]
         else previous_room_stack s)"
  "steps_between_rooms (em_step_update s x) =
     (let c = snd (em_visit_rooms (step_position x) (em_room_aabbs s) (em_room_visitation_map s, None))
      in (if push_room c (previous_room_stack s) then 0 else steps_between_rooms s) + 1)"
  unfolding em_step_update_def em_update_as_blocks
  by (simp_all only: em_blocks_room_fields em_push_room_fields em_count_revisits_fields
      em_visit_fields Let_def)

lemma em_peek_fields:
  "em_peek p s r =
     (let v = em_visit_rooms p (em_room_aabbs s) (em_room_visitation_map s, None)
      in snd v = Some r \<and> is_peeking (previous_room_stack s) (Some r) \<and>
         dd_get (fst v) r \<ge> 1 \<and> steps_between_rooms s \<le> 10)"
  "em_peek_strict p s r =
     (let v = em_visit_rooms p (em_room_aabbs s) (em_room_visitation_map s, None)
      in snd v = Some r \<and> is_peeking (previous_room_stack s) (Some r) \<and>
         dd_get (fst v) r \<ge> 1 \<and> steps_between_rooms s \<ge> 8 \<and> steps_between_rooms s \<le> 14)"
  by (simp_all add: em_peek_def em_peek_strict_def peek_detected_def peek_detected_strict_def
      em_visit_fields Let_def)

lemma step_from_fields:
  assumes "em_room_aabbs s = A" "em_room_visitation_map s = M"
    "previous_room_stack s = K" "steps_between_rooms s = n"
    "em_visit_rooms (step_position x) A (M, None) = (M', c)"
  shows "em_room_aabbs (em_step_update s x) = A"
    "em_room_visitation_map (em_step_update s x) = M'"
    "previous_room_stack (em_step_update s x) = (if push_room c K then K @ [the c] else K)"
    "steps_between_rooms (em_step_update s x) = (if push_room c K then 0 else n) + 1"
  by (simp_all add: em_step_rooms assms)

lemma peek_from_fields:
  assumes "em_room_aabbs s = A" "em_room_visitation_map s = M"
    "previous_room_stack s = K" "steps_between_rooms s = n"
    "em_visit_rooms p A (M, None) = (M', c)"
  shows "em_peek p s r \<longleftrightarrow>
           c = Some r \<and> is_peeking K (Some r) \<and> dd_get M' r \<ge> 1 \<and> n \<le> 10"
    "em_peek_strict p s r \<longleftrightarrow>
           c = Some r \<and> is_peeking K (Some r) \<and> dd_get M' r \<ge> 1 \<and> n \<ge> 8 \<and> n \<le> 14"
  by (simp_all add: em_peek_fields assms)

lemma two_rooms_levels:
  "em_levels (Vec3 0 0 0) [[hallway, far_kitchen]] ([], None, 0) =
     (two_rooms, Some ''hallway'', 2)"
  by (simp add: hallway_def far_kitchen_def two_rooms_def unit_box_def aabb_contains_iff Let_def)

lemma two_rooms_start_fields:
  "em_room_aabbs two_rooms_start = two_rooms"
  "em_room_visitation_map two_rooms_start = []"
  "previous_room_stack two_rooms_start = []"
  "steps_between_rooms two_rooms_start = 0"
  "room_revisitation_map two_rooms_start = []"
  "room_revisitation_map_strict two_rooms_start = []"
  unfolding two_rooms_start_def em_reset_metric_def two_rooms_levels
  by (simp_all add: em_init_def)

lemma visit_two_rooms:
  "em_visit_rooms (Vec3 0 0 0) two_rooms (m, None) = (dd_incr m ''hallway'', Some ''hallway'')"
  "em_visit_rooms (Vec3 10 0 0) two_rooms (m, None) = (dd_incr m ''kitchen'', Some ''kitchen'')"
  by (simp_all add: two_rooms_def unit_box_def aabb_contains_iff)

theorem first_peek_counts_twice_witness:
  "dd_get (room_revisitation_map two_rooms_start) ''hallway'' = 0 \<and>
   peek_count ''hallway'' peek_walk two_rooms_start = 1 \<and>
   dd_get (room_revisitation_map (em_run peek_walk two_rooms_start)) ''hallway'' = 2 \<and>
   dd_get (room_revisitation_map_strict kitchen_stay) ''hallway'' = 0 \<and>
   peek_count_strict ''hallway'' [forward_at (Vec3 0 0 0)] kitchen_stay = 1 \<and>
   dd_get (room_revisitation_map_strict (em_run [forward_at (Vec3 0 0 0)] kitchen_stay))
     ''hallway'' = 2"
proof -
  let ?h = "forward_at (Vec3 0 0 0)" and ?k = "forward_at (Vec3 10 0 0)"
  let ?s0 = two_rooms_start
  let ?s1 = "em_step_update ?s0 ?h"
  let ?s2 = "em_step_update ?s1 ?k"
  have p: "step_position ?h = Vec3 0 0 0" "step_position ?k = Vec3 10 0 0"
    by (simp_all add: forward_at_def)
  have f0: "em_room_aabbs ?s0 = two_rooms" "em_room_visitation_map ?s0 = []"
    "previous_room_stack ?s0 = []" "steps_between_rooms ?s0 = 0"
    by (simp_all add: two_rooms_start_fields)
  have v0: "em_visit_rooms (step_position ?h) two_rooms ([], None) =
      ([(''hallway'', 1)], Some ''hallway'')"
    by (simp add: p visit_two_rooms)
  have f1: "em_room_aabbs ?s1 = two_rooms" "em_room_visitation_map ?s1 = [(''hallway'', 1)]"
    "previous_room_stack ?s1 = [''hallway'']" "steps_between_rooms ?s1 = 1"
    using step_from_fields [OF f0 v0] by (simp_all add: push_room_def)
  have v1: "em_visit_rooms (step_position ?k) two_rooms ([(''hallway'', 1)], None) =
      ([(''hallway'', 1), (''kitchen'', 1)], Some ''kitchen'')"
    by (simp add: p visit_two_rooms)
  have f2: "em_room_aabbs ?s2 = two_rooms"
    "em_room_visitation_map ?s2 = [(''hallway'', 1), (''kitchen'', 1)]"
    "previous_room_stack ?s2 = [''hallway'', ''kitchen'']" "steps_between_rooms ?s2 = 1"
    using step_from_fields [OF f1 v1] by (simp_all add: push_room_def)
  have v2: "em_visit_rooms (Vec3 0 0 0) two_rooms ([(''hallway'', 1), (''kitchen'', 1)], None) =
      ([(''hallway'', 2), (''kitchen'', 1)], Some ''hallway'')"
    by (simp add: visit_two_rooms)
  have k0: "\<not> em_peek (Vec3 0 0 0) ?s0 ''hallway''"
    using peek_from_fields(1) [OF f0 v0 [unfolded p]] by (simp add: is_peeking_def)
  have k1: "\<not> em_peek (Vec3 10 0 0) ?s1 ''hallway''"
    using peek_from_fields(1) [OF f1 v1 [unfolded p]] by simp
  have k2: "em_peek (Vec3 0 0 0) ?s2 ''hallway''"
    using peek_from_fields(1) [OF f2 v2] by (simp add: is_peeking_def)
  have n: "peek_count ''hallway'' peek_walk ?s0 = 1"
    by (simp add: peek_walk_def p k0 k1 k2)
  have z: "dd_get (room_revisitation_map ?s0) ''hallway'' = 0"
    by (simp add: two_rooms_start_fields)
  have g: "em_room_aabbs kitchen_stay = two_rooms"
    "em_room_visitation_map kitchen_stay = [(''hallway'', 1), (''kitchen'', 8)]"
    "previous_room_stack kitchen_stay = [''hallway'', ''kitchen'']"
    "steps_between_rooms kitchen_stay = 8"
    "room_revisitation_map_strict kitchen_stay = []"
    by (simp_all add: kitchen_stay_def two_rooms_start_fields)
  have vs: "em_visit_rooms (Vec3 0 0 0) two_rooms ([(''hallway'', 1), (''kitchen'', 8)], None) =
      ([(''hallway'', 2), (''kitchen'', 8)], Some ''hallway'')"
    by (simp add: visit_two_rooms)
  have ks: "em_peek_strict (Vec3 0 0 0) kitchen_stay ''hallway''"
    using peek_from_fields(2) [OF g(1-4) vs] by (simp add: is_peeking_def)
  have ns: "peek_count_strict ''hallway'' [?h] kitchen_stay = 1"
    by (simp add: p ks)
  have zs: "dd_get (room_revisitation_map_strict kitchen_stay) ''hallway'' = 0"
    by (simp add: g)
  have r1: "dd_get (room_revisitation_map (em_run peek_walk ?s0)) ''hallway'' = 2"
    using first_peek_counts_twice [of None "Vec3 0 0 0" "[]" ?s0 "''hallway''" peek_walk] z n
    by simp
  have r2: "dd_get (room_revisitation_map_strict (em_run [?h] kitchen_stay)) ''hallway'' = 2"
    using first_peek_counts_twice [of None "Vec3 0 0 0" "[]" kitchen_stay "''hallway''" "[?h]"]
      zs ns
    by simp
  show ?thesis using z n r1 zs ns r2 by simp
qed

lemma two_rooms_start_turns:
  "total_left_turns two_rooms_start = 0"
  "total_right_turns two_rooms_start = 0"
  "panoramic_turns two_rooms_start = 0"
  "panoramic_turns_strict two_rooms_start = 0"
  unfolding two_rooms_start_def em_reset_metric_def two_rooms_levels
  by (simp_all add: em_init_def)

lemma visible_area_examples:
  "get_visible_area (Some unseen_map) = Fin 0"
  "get_visible_area (Some seen_map) = Fin 1"
  by (simp_all add: get_visible_area_def get_navigable_area_def np_true_divide_def
      np_where_sum_def np_sum_def unseen_map_def seen_map_def round64_0 round64_values Let_def)

lemma sweep_threshold_values:
  "sweep_threshold = Fin (8646911284551352 / 2 ^ 59)"
  "sweep_threshold_strict = Fin (5764607523034235 / 2 ^ 59)"
  unfolding sweep_threshold_def sweep_threshold_strict_def by (rule round64_thresholds)+

lemma sweep_delta_example:
  "fl_gt (fl_sub (get_visible_area (Some seen_map)) (get_visible_area (Some unseen_map)))
     sweep_threshold"
  "fl_gt (fl_sub (get_visible_area (Some seen_map)) (get_visible_area (Some unseen_map)))
     sweep_threshold_strict"
  by (simp_all add: visible_area_examples fl_sub_def sweep_threshold_values)

text \<open>
  The rounding is part of the comparison. With 103 and then 100 of 200 navigable cells
  in view, the exact difference of the two ratios is 0.015 and does not exceed it; the
  floats of the two quotients differ by 0.015000000000000013, which exceeds the float
  of the literal 0.015, as in the program.
\<close>

lemma rounded_quotient_example:
  "np_true_divide 103 200 = Fin (4638707616191611 / 2 ^ 53)"
  "np_true_divide 100 200 = Fin (1 / 2)"
  using round64_binade [of "- 1" "103 / 200"]
  by (simp_all add: np_true_divide_def round64_values pow2_def rne_def Let_def)

lemma rounded_difference_example:
  "fl_sub (np_true_divide 103 200) (np_true_divide 100 200) = Fin (135107988821115 / 2 ^ 53)"
  "fl_gt (fl_sub (np_true_divide 103 200) (np_true_divide 100 200)) sweep_threshold"
proof -
  have "round64 (135107988821115 / 2 ^ 53) = Fin (135107988821115 / 2 ^ 53)"
    using round64_exact [of "- 7" "135107988821115 / 2 ^ 53" "135107988821115 * 64"]
    by (simp add: pow2_def)
  then show d: "fl_sub (np_true_divide 103 200) (np_true_divide 100 200) =
      Fin (135107988821115 / 2 ^ 53)"
    by (simp add: rounded_quotient_example fl_sub_def)
  show "fl_gt (fl_sub (np_true_divide 103 200) (np_true_divide 100 200)) sweep_threshold"
    unfolding d by (simp add: sweep_threshold_values)
qed

theorem panoramic_sweep_witness:
  "total_left_turns two_rooms_start = 0 \<and> total_right_turns two_rooms_start = 0 \<and>
   panoramic_turns (em_run (four_lefts @ four_rights) two_rooms_start) = 1 \<and>
   panoramic_turns_strict (em_run (four_lefts @ four_rights) two_rooms_start) = 1 \<and>
   four_lefts \<noteq> [] \<and> four_rights \<noteq> [] \<and> length four_lefts + length four_rights = 8 \<and>
   \<not> str_in ''TURN'' (step_action (forward_at still)) \<and>
   total_left_turns (em_run (four_lefts @ [forward_at still]) two_rooms_start) = 0 \<and>
   total_right_turns (em_run (four_lefts @ [forward_at still]) two_rooms_start) = 0 \<and>
   panoramic_turns (em_run (four_lefts @ [forward_at still] @ four_rights) two_rooms_start) = 0 \<and>
   panoramic_turns_strict
     (em_run (four_lefts @ [forward_at still] @ four_rights) two_rooms_start) = 0"
proof -
  note t = panoramic_sweep [where s = two_rooms_start
      and ?t1.0 = None and ?t2.0 = None and ?t3.0 = None and ?t4.0 = None
      and ?t5.0 = None and ?t6.0 = None and ?t7.0 = "Some unseen_map"
      and ?t8.0 = "Some seen_map"
      and ?p1.0 = still and ?p2.0 = still and ?p3.0 = still and ?p4.0 = still
      and ?p5.0 = still and ?p6.0 = still and ?p7.0 = still and ?p8.0 = still
      and pre = four_lefts and post = four_rights and y = "forward_at still"
      and t = None and p = still and a = "[]"]
  have h: "total_left_turns two_rooms_start = 0" "total_right_turns two_rooms_start = 0"
    by (simp_all add: two_rooms_start_turns)
  note d = sweep_delta_example
  have w: "four_lefts @ four_rights =
      [left_turn None still, left_turn None still, left_turn None still, left_turn None still,
       right_turn None still, right_turn None still, right_turn (Some unseen_map) still,
       right_turn (Some seen_map) still]"
    by (simp add: four_lefts_def four_rights_def)
  have i: "four_lefts \<noteq> []" "four_rights \<noteq> []" "length four_lefts + length four_rights = 8"
    "\<not> str_in ''TURN'' (step_action (forward_at still))"
    by (simp_all add: four_lefts_def four_rights_def forward_at_def)
  have a: "panoramic_turns (em_run (four_lefts @ four_rights) two_rooms_start) = 1"
    "panoramic_turns_strict (em_run (four_lefts @ four_rights) two_rooms_start) = 1"
    unfolding w using t h d by (simp_all add: two_rooms_start_turns)
  have c: "total_left_turns (em_run (four_lefts @ [forward_at still]) two_rooms_start) = 0"
    "total_right_turns (em_run (four_lefts @ [forward_at still]) two_rooms_start) = 0"
    "panoramic_turns (em_run (four_lefts @ [forward_at still] @ four_rights) two_rooms_start) = 0"
    "panoramic_turns_strict
       (em_run (four_lefts @ [forward_at still] @ four_rights) two_rooms_start) = 0"
    using t h i by (simp_all add: two_rooms_start_turns)
  show ?thesis using h a i c by simp
qed

text \<open>
  C7 (as stated, refuted). The claim: a non-turn action inserted anywhere before the
  eighth turn prevents the increment. With a \<^verbatim>\<open>MOVE_FORWARD\<close> inserted before the
  first of the four left turns, the eight turns still follow one another, the visible
  area grows from 0 to 1 on the last of them, and both sweep counts go from 0 to 1.
\<close>

theorem panoramic_sweep_counterexample:
  "\<not> str_in ''TURN'' (step_action (forward_at still)) \<and>
   panoramic_turns two_rooms_start = 0 \<and>
   panoramic_turns (em_run ([forward_at still] @ four_lefts @ four_rights) two_rooms_start) = 1 \<and>
   panoramic_turns_strict
     (em_run ([forward_at still] @ four_lefts @ four_rights) two_rooms_start) = 1"
proof -
  let ?s = "em_step_update two_rooms_start (forward_at still)"
  have y: "\<not> str_in ''TURN'' (step_action (forward_at still))"
    by (simp add: forward_at_def)
  note r = non_turn_resets [OF y, of two_rooms_start]
  from r have start: "total_left_turns ?s = 0" "total_right_turns ?s = 0" by simp_all
  have e: "em_run ([forward_at still] @ four_lefts @ four_rights) two_rooms_start =
      em_run [left_turn None still, left_turn None still, left_turn None still,
              left_turn None still, right_turn None still, right_turn None still,
              right_turn (Some unseen_map) still, right_turn (Some seen_map) still] ?s"
    by (simp add: em_run_def four_lefts_def four_rights_def)
  show ?thesis
    unfolding e
    using y r full_sweep [OF start, of None still None still None still None still
        None still None still "Some unseen_map" still "Some seen_map" still]
    by (simp add: two_rooms_start_turns sweep_delta_example)
qed

end
